theory Spec2Isabelle
  imports Main "HOL-Library.Sublist"
begin

section \<open>Python values\<close>

text \<open>
  Exceptions of the source are values. A function that can raise returns
  \<open>py_error + 'a\<close>, with \<open>Inl\<close> the exception.
\<close>

datatype py_error =
  IndexError | KeyError | TypeError | ValueError | AttributeError | ClientError

text \<open>Truthiness of \<open>str | None\<close> and of \<open>list | None\<close> values (\<open>if x:\<close>).\<close>

fun truthy :: "'a list option \<Rightarrow> bool" where
  "truthy None = False"
| "truthy (Some xs) = (xs \<noteq> [])"

text \<open>\<open>xs[i]\<close> on a Python list: a negative index counts from the end.\<close>

definition py_index :: "'a list \<Rightarrow> int \<Rightarrow> py_error + 'a" where
  "py_index xs i =
     (if 0 \<le> i \<and> i < int (length xs) then Inr (xs ! nat i)
      else if i < 0 \<and> - int (length xs) \<le> i then Inr (xs ! nat (int (length xs) + i))
      else Inl IndexError)"

text \<open>\<open>str(n)\<close> for an int.\<close>

definition digit_char :: "nat \<Rightarrow> char" where
  "digit_char d = ''0123456789'' ! d"

function str_nat :: "nat \<Rightarrow> string" where
  "str_nat n = (if n < 10 then [digit_char n] else str_nat (n div 10) @ [digit_char (n mod 10)])"
  by pat_completeness auto
termination
  by (relation "measure id") auto

declare str_nat.simps [simp del]

definition str_int :: "int \<Rightarrow> string" where
  "str_int i = (if i < 0 then CHR ''-'' # str_nat (nat (- i)) else str_nat (nat i))"

text \<open>\<open>sep.join(lines)\<close>.\<close>

fun join :: "string \<Rightarrow> string list \<Rightarrow> string" where
  "join sep [] = []"
| "join sep [l] = l"
| "join sep (l # ls) = l @ sep @ join sep ls"

text \<open>\<open>s.split(sep)\<close> for a one-character separator: always at least one part.\<close>

fun str_split :: "char \<Rightarrow> string \<Rightarrow> string list" where
  "str_split sep [] = [[]]"
| "str_split sep (c # cs) =
     (if c = sep then [] # str_split sep cs
      else (case str_split sep cs of
              [] \<Rightarrow> [[c]]
            | p # ps \<Rightarrow> (c # p) # ps))"


section \<open>core/utils.py: reference resolution\<close>

text \<open>
  The configuration document as \<open>json.load\<close> returns it. A dict is an association
  list in document order; its keys are distinct, so \<open>map_of\<close> is the lookup.
\<close>

datatype json =
    JNull
  | JBool bool
  | JInt int
  | JStr string
  | JList "json list"
  | JDict "(string \<times> json) list"

text \<open>
  \<open>resolved = context["buttons"][base_key]\<close> under \<open>except KeyError: raise ValueError\<close>.
  Subscripting a value that is not a dict with a string raises TypeError, which the
  handler does not catch.
\<close>

definition lookup_base :: "json \<Rightarrow> string \<Rightarrow> py_error + json" where
  "lookup_base context base_key =
     (case context of
        JDict kvs \<Rightarrow>
          (case map_of kvs ''buttons'' of
             None \<Rightarrow> Inl ValueError
           | Some (JDict bs) \<Rightarrow>
               (case map_of bs base_key of
                  None \<Rightarrow> Inl ValueError
                | Some r \<Rightarrow> Inr r)
           | Some _ \<Rightarrow> Inl TypeError)
      | _ \<Rightarrow> Inl TypeError)"

text \<open>The loop \<open>for subkey in parts[1:]\<close>.\<close>

fun descend :: "json \<Rightarrow> string list \<Rightarrow> py_error + json" where
  "descend resolved [] = Inr resolved"
| "descend resolved (subkey # rest) =
     (case resolved of
        JDict kvs \<Rightarrow>
          (case map_of kvs subkey of
             Some v \<Rightarrow> descend v rest
           | None \<Rightarrow> Inl ValueError)
      | _ \<Rightarrow> Inl ValueError)"

text \<open>The branch of \<open>resolve_references\<close> for a string \<open>"@" + reference\<close>.\<close>

definition resolve_string :: "string \<Rightarrow> json \<Rightarrow> py_error + json" where
  "resolve_string reference context =
     (let parts = str_split (CHR ''.'') reference in
      case lookup_base context (hd parts) of
        Inl e \<Rightarrow> Inl e
      | Inr resolved \<Rightarrow> descend resolved (tl parts))"

text \<open>
  \<open>resolve_references(data, context)\<close>. The dict and list comprehensions stop at the
  first element that raises.
\<close>

fun resolve_references :: "json \<Rightarrow> json \<Rightarrow> py_error + json"
and resolve_list :: "json list \<Rightarrow> json \<Rightarrow> py_error + json list"
and resolve_items :: "(string \<times> json) list \<Rightarrow> json \<Rightarrow> py_error + (string \<times> json) list"
where
  "resolve_references (JDict kvs) context =
     (case resolve_items kvs context of
        Inl e \<Rightarrow> Inl e
      | Inr r \<Rightarrow> Inr (JDict r))"
| "resolve_references (JList xs) context =
     (case resolve_list xs context of
        Inl e \<Rightarrow> Inl e
      | Inr r \<Rightarrow> Inr (JList r))"
| "resolve_references (JStr s) context =
     (case s of
        [] \<Rightarrow> Inr (JStr s)
      | c # reference \<Rightarrow>
          (if c = CHR ''@'' then resolve_string reference context else Inr (JStr s)))"
| "resolve_references JNull context = Inr JNull"
| "resolve_references (JBool b) context = Inr (JBool b)"
| "resolve_references (JInt i) context = Inr (JInt i)"
| "resolve_list [] context = Inr []"
| "resolve_list (x # xs) context =
     (case resolve_references x context of
        Inl e \<Rightarrow> Inl e
      | Inr y \<Rightarrow>
          (case resolve_list xs context of
             Inl e \<Rightarrow> Inl e
           | Inr ys \<Rightarrow> Inr (y # ys)))"
| "resolve_items [] context = Inr []"
| "resolve_items ((k, v) # kvs) context =
     (case resolve_references v context of
        Inl e \<Rightarrow> Inl e
      | Inr y \<Rightarrow>
          (case resolve_items kvs context of
             Inl e \<Rightarrow> Inl e
           | Inr ys \<Rightarrow> Inr ((k, y) # ys)))"

text \<open>\<open>load_json_with_references\<close> after the file is parsed: the document is its own context.\<close>

definition load_json_with_references :: "json \<Rightarrow> py_error + json" where
  "load_json_with_references data = resolve_references data data"

text \<open>
  What a reference names, in the words of the contract: each dotted segment indexes one
  level deeper, starting in the buttons section; \<open>None\<close> when a segment is absent.
\<close>

fun lookup_path :: "json \<Rightarrow> string list \<Rightarrow> json option" where
  "lookup_path v [] = Some v"
| "lookup_path (JDict kvs) (k # ks) =
     (case map_of kvs k of
        None \<Rightarrow> None
      | Some v \<Rightarrow> lookup_path v ks)"
| "lookup_path v (k # ks) = None"

text \<open>The string values of a document (dict keys are not values).\<close>

fun string_values :: "json \<Rightarrow> string list"
and string_values_list :: "json list \<Rightarrow> string list"
and string_values_items :: "(string \<times> json) list \<Rightarrow> string list"
where
  "string_values (JStr s) = [s]"
| "string_values (JList xs) = string_values_list xs"
| "string_values (JDict kvs) = string_values_items kvs"
| "string_values JNull = []"
| "string_values (JBool b) = []"
| "string_values (JInt i) = []"
| "string_values_list [] = []"
| "string_values_list (x # xs) = string_values x @ string_values_list xs"
| "string_values_items [] = []"
| "string_values_items ((k, v) # kvs) = string_values v @ string_values_items kvs"

text \<open>A configuration whose buttons section has the entry \<open>exit\<close> with a content field.\<close>

definition example_config :: json where
  "example_config =
     JDict [(''buttons'',
               JDict [(''exit'', JDict [(''name'', JStr ''Back''), (''content'', JStr ''Bye'')])]),
            (''callbacks'',
               JDict [(''exit'', JDict [(''content'', JStr ''@exit.content'')])])]"

text \<open>The same configuration with a flow whose content refers to a button that is not there.\<close>

definition bad_config :: json where
  "bad_config =
     JDict [(''buttons'',
               JDict [(''exit'', JDict [(''name'', JStr ''Back''), (''content'', JStr ''Bye'')])]),
            (''flows'',
               JList [JDict [(''name'', JStr ''About''), (''content'', JStr ''@next.content'')]])]"

section \<open>common/utils.py\<close>

definition EMPTY_STR :: string where
  "EMPTY_STR = ''''"

definition EMPTY_INT :: int where
  "EMPTY_INT = - 1"

text \<open>\<open>text.replace("\\" + c, c)\<close>: left to right, without overlap (0x5C is the backslash).\<close>

fun unescape :: "char \<Rightarrow> string \<Rightarrow> string" where
  "unescape c (a # b # rest) =
     (if a = CHR 0x5C \<and> b = c then c # unescape c rest else a # unescape c (b # rest))"
| "unescape c rest = rest"

definition format_message_for_max :: "string \<Rightarrow> string" where
  "format_message_for_max txt = unescape (CHR ''_'') (unescape (CHR ''*'') txt)"


section \<open>core/response_builder.py\<close>

text \<open>
  A card is a dict; its values are taken as the text that an f-string prints for them.
  Strings are UTF-8 byte lists; the Cyrillic and emoji literals of the source are
  written out byte by byte.
\<close>

type_synonym card = "(string \<times> string) list"

definition lit_page :: string where
  \<comment> \<open>the page emoji and a space\<close>
  "lit_page = [CHR 0xF0, CHR 0x9F, CHR 0x93, CHR 0x84, CHR 0x20]"

definition lit_result :: string where
  \<comment> \<open>the word for "result"\<close>
  "lit_result = [CHR 0xD0, CHR 0xA0, CHR 0xD0, CHR 0xB5, CHR 0xD0, CHR 0xB7, CHR 0xD1, CHR 0x83,
     CHR 0xD0, CHR 0xBB, CHR 0xD1, CHR 0x8C, CHR 0xD1, CHR 0x82, CHR 0xD0, CHR 0xB0, CHR 0xD1, CHR 0x82]"

definition lit_of :: string where
  \<comment> \<open>the word for "of"\<close>
  "lit_of = [CHR 0xD0, CHR 0xB8, CHR 0xD0, CHR 0xB7]"

definition lit_company :: string where
  "lit_company = [CHR 0xF0, CHR 0x9F, CHR 0x8F, CHR 0xA2, CHR 0x20, CHR 0xD0, CHR 0x9A, CHR 0xD0,
     CHR 0xBE, CHR 0xD0, CHR 0xBC, CHR 0xD0, CHR 0xBF, CHR 0xD0, CHR 0xB0, CHR 0xD0, CHR 0xBD, CHR 0xD0,
     CHR 0xB8, CHR 0xD1, CHR 0x8F, CHR 0x3A, CHR 0x20]"

definition lit_category :: string where
  "lit_category = [CHR 0xF0, CHR 0x9F, CHR 0x93, CHR 0x82, CHR 0x20, CHR 0xD0, CHR 0x9A, CHR 0xD0,
     CHR 0xB0, CHR 0xD1, CHR 0x82, CHR 0xD0, CHR 0xB5, CHR 0xD0, CHR 0xB3, CHR 0xD0, CHR 0xBE, CHR 0xD1,
     CHR 0x80, CHR 0xD0, CHR 0xB8, CHR 0xD1, CHR 0x8F, CHR 0x3A, CHR 0x20]"

definition lit_location :: string where
  "lit_location = [CHR 0xF0, CHR 0x9F, CHR 0x93, CHR 0x8D, CHR 0x20, CHR 0xD0, CHR 0x9C, CHR 0xD0,
     CHR 0xB5, CHR 0xD1, CHR 0x81, CHR 0xD1, CHR 0x82, CHR 0xD0, CHR 0xBE, CHR 0xD0, CHR 0xBF, CHR 0xD0,
     CHR 0xBE, CHR 0xD0, CHR 0xBB, CHR 0xD0, CHR 0xBE, CHR 0xD0, CHR 0xB6, CHR 0xD0, CHR 0xB5, CHR 0xD0,
     CHR 0xBD, CHR 0xD0, CHR 0xB8, CHR 0xD0, CHR 0xB5, CHR 0x3A, CHR 0x20]"

definition lit_contact :: string where
  "lit_contact = [CHR 0xF0, CHR 0x9F, CHR 0x93, CHR 0x9E, CHR 0x20, CHR 0xD0, CHR 0x9A, CHR 0xD0,
     CHR 0xBE, CHR 0xD0, CHR 0xBD, CHR 0xD1, CHR 0x82, CHR 0xD0, CHR 0xB0, CHR 0xD0, CHR 0xBA, CHR 0xD1,
     CHR 0x82, CHR 0x3A, CHR 0x20]"

definition lit_more :: string where
  "lit_more = [CHR 0xF0, CHR 0x9F, CHR 0x94, CHR 0x97, CHR 0x20, CHR 0x5B, CHR 0xD0, CHR 0x9F, CHR 0xD0,
     CHR 0xBE, CHR 0xD0, CHR 0xB4, CHR 0xD1, CHR 0x80, CHR 0xD0, CHR 0xBE, CHR 0xD0, CHR 0xB1, CHR 0xD0,
     CHR 0xBD, CHR 0xD0, CHR 0xB5, CHR 0xD0, CHR 0xB5, CHR 0x5D, CHR 0x28]"

definition lit_no_information :: string where
  \<comment> \<open>the reply that replaces an answer holding the placeholder link\<close>
  "lit_no_information = [CHR 0xD0, CHR 0xA3, CHR 0x20, CHR 0xD0, CHR 0xBC, CHR 0xD0, CHR 0xB5, CHR 0xD0,
     CHR 0xBD, CHR 0xD1, CHR 0x8F, CHR 0x20, CHR 0xD0, CHR 0xBD, CHR 0xD0, CHR 0xB5, CHR 0xD1, CHR 0x82,
     CHR 0x20, CHR 0xD0, CHR 0xB8, CHR 0xD0, CHR 0xBD, CHR 0xD1, CHR 0x84, CHR 0xD0, CHR 0xBE, CHR 0xD1,
     CHR 0x80, CHR 0xD0, CHR 0xBC, CHR 0xD0, CHR 0xB0, CHR 0xD1, CHR 0x86, CHR 0xD0, CHR 0xB8, CHR 0xD0,
     CHR 0xB8, CHR 0x20, CHR 0xD0, CHR 0xBF, CHR 0xD0, CHR 0xBE, CHR 0x20, CHR 0xD1, CHR 0x8D, CHR 0xD1,
     CHR 0x82, CHR 0xD0, CHR 0xBE, CHR 0xD0, CHR 0xBC, CHR 0xD1, CHR 0x83, CHR 0x20, CHR 0xD0, CHR 0xB2,
     CHR 0xD0, CHR 0xBE, CHR 0xD0, CHR 0xBF, CHR 0xD1, CHR 0x80, CHR 0xD0, CHR 0xBE, CHR 0xD1, CHR 0x81,
     CHR 0xD1, CHR 0x83]"

definition lit_first_page :: string where
  \<comment> \<open>the notice of the inactive button\<close>
  "lit_first_page = [CHR 0xD0, CHR 0xAD, CHR 0xD1, CHR 0x82, CHR 0xD0, CHR 0xBE, CHR 0x20, CHR 0xD0,
     CHR 0xBF, CHR 0xD0, CHR 0xB5, CHR 0xD1, CHR 0x80, CHR 0xD0, CHR 0xB2, CHR 0xD0, CHR 0xB0, CHR 0xD1,
     CHR 0x8F, CHR 0x20, CHR 0xD1, CHR 0x81, CHR 0xD1, CHR 0x82, CHR 0xD1, CHR 0x80, CHR 0xD0, CHR 0xB0,
     CHR 0xD0, CHR 0xBD, CHR 0xD0, CHR 0xB8, CHR 0xD1, CHR 0x86, CHR 0xD0, CHR 0xB0]"

definition nl :: string where
  "nl = [CHR 0x0A]"

text \<open>The header line of a card: the page emoji, "result", page + 1, "of", pages + 1, newline.\<close>

definition card_header :: "int \<Rightarrow> int \<Rightarrow> string" where
  "card_header current_page total_pages =
     lit_page @ lit_result @ '' '' @ str_int (current_page + 1) @ '' '' @ lit_of @ '' ''
       @ str_int (total_pages + 1) @ nl"

text \<open>One optional line: \<open>if key in card: lines.append(before + card[key] + after)\<close>.\<close>

definition card_field :: "card \<Rightarrow> string \<Rightarrow> string \<Rightarrow> string \<Rightarrow> string list" where
  "card_field crd key before after =
     (case map_of crd key of
        None \<Rightarrow> []
      | Some v \<Rightarrow> [before @ v @ after])"

definition card_from_json :: "card \<Rightarrow> int \<Rightarrow> int \<Rightarrow> string" where
  "card_from_json crd current_page total_pages =
     join nl
       ([card_header current_page total_pages]
        @ (case map_of crd ''name'' of
             Some v \<Rightarrow> [''*'' @ v @ ''*'' @ nl]
           | None \<Rightarrow> card_field crd ''title'' ''*'' (''*'' @ nl))
        @ card_field crd ''description'' [] nl
        @ card_field crd ''company'' lit_company []
        @ card_field crd ''category'' lit_category []
        @ card_field crd ''location'' lit_location []
        @ card_field crd ''contact'' lit_contact []
        @ card_field crd ''url'' lit_more '')'')"


section \<open>core/schemas.py, database/schemas.py\<close>

record Button =
  button_name :: string
  button_privileged :: bool

record InlineButton =
  inline_name :: string
  url :: "string option"
  pattern :: "string option"

text \<open>
  A keyboard is the dict \<open>{"type": "inline_keyboard", "payload": {"buttons": rows}}\<close>;
  the model keeps the rows.
\<close>

record btn_dict =
  btn_text :: string
  btn_type :: "string option"
  btn_url :: "string option"
  btn_payload :: "string option"

type_synonym markup = "btn_dict list list"

text \<open>\<open>DBUserState\<close>, without the row id and the timestamps.\<close>

record DBUserState =
  use_pagination :: bool
  flow_stack :: "string list"
  search_type :: string
  callback_message_id :: "string option"
  callback_message_inline_markup :: "markup option"
  callback_message_need_to_delete :: bool
  cards_json :: "card list option"
  cards_current_page :: int
  cards_total_length :: int

definition default_state :: DBUserState where
  "default_state =
     \<lparr>use_pagination = False, flow_stack = [''main''], search_type = EMPTY_STR,
      callback_message_id = None, callback_message_inline_markup = None,
      callback_message_need_to_delete = False,
      cards_json = None, cards_current_page = EMPTY_INT, cards_total_length = EMPTY_INT\<rparr>"

record User =
  user_id :: int
  is_vip :: bool
  is_admin :: bool
  state :: DBUserState


section \<open>core/keyboard.py\<close>

definition inline_btn_dict :: "InlineButton \<Rightarrow> btn_dict" where
  "inline_btn_dict button =
     (if truthy (url button)
      then \<lparr>btn_text = inline_name button, btn_type = Some ''link'',
            btn_url = url button, btn_payload = None\<rparr>
      else if truthy (pattern button)
      then \<lparr>btn_text = inline_name button, btn_type = Some ''callback'',
            btn_url = None, btn_payload = pattern button\<rparr>
      else \<lparr>btn_text = inline_name button, btn_type = None,
            btn_url = None, btn_payload = None\<rparr>)"

text \<open>\<open>build_inline_keyboard\<close> on a list of rows: empty rows are left out.\<close>

definition build_inline_keyboard :: "InlineButton list list \<Rightarrow> markup" where
  "build_inline_keyboard rows = filter (\<lambda>row. row \<noteq> []) (map (map inline_btn_dict) rows)"


section \<open>The collaborators: chat platform and AI search\<close>

text \<open>
  The normalized update that \<open>_process_message\<close> and \<open>_process_callback\<close> build.
  A field is \<open>None\<close> when its key is absent. The chat id is the platform's integer.
\<close>

record message =
  msg_text :: "string option"
  chat_id :: "int option"
  message_id :: string

record callback_query =
  cq_data :: "string option"
  cq_message :: "message option"
  cq_id :: "string option"

record update =
  upd_message :: "message option"
  upd_callback_query :: "callback_query option"

text \<open>
  The calls a handler makes on the chat client, in order, are its trace. The client
  itself is any function from a call to its reply; \<open>None\<close> is a call that raises.
\<close>

datatype client_call =
    send_message int string "markup option"
  | send_photo int string string "markup option"
  | send_video int string string "markup option"
  | edit_message_reply_markup int "string option" "markup option"
  | delete_message int "string option"
  | answer_callback_query string "string option"

type_synonym api_reply = "(string \<times> string) list"

type_synonym MaxClient = "client_call \<Rightarrow> api_reply option"

record ai_payload =
  p_search_type :: string
  top_k :: nat
  database_name :: string
  history :: string

text \<open>
  The value under \<open>answer\<close> in the AI response: the key is absent, or holds JSON
  null, or holds a text.
\<close>

datatype answer_value = Absent | Null | Text string

fun answer_truthy :: "answer_value \<Rightarrow> bool" where
  "answer_truthy (Text a) = (a \<noteq> [])"
| "answer_truthy v = False"

record ai_response =
  answer :: answer_value
  cards :: "card list option"
  product_cards :: "card list option"

type_synonym AIClient = "ai_payload \<Rightarrow> ai_response option"

text \<open>Client calls made one after the other; the first that raises ends the sequence.\<close>

fun perform :: "MaxClient \<Rightarrow> client_call list \<Rightarrow> py_error option \<times> client_call list" where
  "perform client [] = (None, [])"
| "perform client (a # rest) =
     (case client a of
        None \<Rightarrow> (Some ClientError, [a])
      | Some reply \<Rightarrow>
          (case perform client rest of
             (e, tr) \<Rightarrow> (e, a # tr)))"

text \<open>What \<open>build_shared_data\<close> hands to every handler.\<close>

record common =
  menus :: "string \<rightharpoonup> Button list"
  errors :: "string \<rightharpoonup> string"
  buttons :: "string \<rightharpoonup> InlineButton"
  managed_flows :: "string set"

text \<open>\<open>self.errors[key]\<close>.\<close>

definition errors_get :: "common \<Rightarrow> string \<Rightarrow> py_error + string" where
  "errors_get c key = (case errors c key of None \<Rightarrow> Inl KeyError | Some s \<Rightarrow> Inr s)"


section \<open>core/decorators.py\<close>

text \<open>
  A handler body mutates the caller's user object in place. Its run is the value it
  returns or the exception it raises, the caller's object as the body left it, and the
  trace of client calls. The middleware returns the body's value, and on an exception
  the caller's object.
\<close>

record run =
  result :: "py_error + User option"
  object :: "User option"
  calls :: "client_call list"

definition returns :: "User option \<Rightarrow> User option \<Rightarrow> client_call list \<Rightarrow> run" where
  "returns r obj tr = \<lparr>result = Inr r, object = obj, calls = tr\<rparr>"

definition raises :: "py_error \<Rightarrow> User option \<Rightarrow> client_call list \<Rightarrow> run" where
  "raises e obj tr = \<lparr>result = Inl e, object = obj, calls = tr\<rparr>"

definition middleware :: "run \<Rightarrow> User option \<times> client_call list" where
  "middleware r =
     (case result r of
        Inr u \<Rightarrow> (u, calls r)
      | Inl e \<Rightarrow> (object r, calls r))"


section \<open>core/base.py\<close>

text \<open>
  \<open>BaseResponse._send_message\<close>: the chat id comes from the message, else from the
  callback query's message; no chat id, no call. An exception of the client is caught
  and gives \<open>None\<close>.
\<close>

definition update_chat_id :: "update \<Rightarrow> int option" where
  "update_chat_id upd =
     (case upd_message upd of
        Some m \<Rightarrow> chat_id m
      | None \<Rightarrow>
          (case upd_callback_query upd of
             None \<Rightarrow> None
           | Some cq \<Rightarrow>
               (case cq_message cq of
                  None \<Rightarrow> None
                | Some m \<Rightarrow> chat_id m)))"

text \<open>The client method \<open>_send_message\<close> picks: photo, else video, else text.\<close>

definition send_call ::
  "int \<Rightarrow> string \<Rightarrow> string option \<Rightarrow> string option \<Rightarrow> markup option \<Rightarrow> client_call" where
  "send_call chat formatted_content photo video reply_markup =
     (case photo of
        Some (p # ps) \<Rightarrow> send_photo chat (p # ps) formatted_content reply_markup
      | _ \<Rightarrow>
          (case video of
             Some (v # vs) \<Rightarrow> send_video chat (v # vs) formatted_content reply_markup
           | _ \<Rightarrow> send_message chat formatted_content reply_markup))"

definition BaseResponse_send_message ::
  "update \<Rightarrow> MaxClient \<Rightarrow> string \<Rightarrow> string option \<Rightarrow> string option \<Rightarrow> markup option
     \<Rightarrow> api_reply option \<times> client_call list" where
  "BaseResponse_send_message upd client content photo video reply_markup =
     (case update_chat_id upd of
        None \<Rightarrow> (None, [])
      | Some chat \<Rightarrow>
          if chat = 0 then (None, [])
          else
            (let formatted_content = format_message_for_max content;
                 call = send_call chat formatted_content photo video reply_markup
             in (client call, [call])))"

text \<open>
  \<open>BaseResponse._remove_callback_buttons\<close>: the client's failure is caught; the
  tracked message id is cleared either way.
\<close>

definition BaseResponse_remove_callback_buttons ::
  "MaxClient \<Rightarrow> User \<Rightarrow> int \<Rightarrow> User \<times> client_call list" where
  "BaseResponse_remove_callback_buttons client user chat =
     (if callback_message_id (state user) = Some EMPTY_STR then (user, [])
      else
        (let call =
               (if callback_message_need_to_delete (state user)
                then delete_message chat (callback_message_id (state user))
                else edit_message_reply_markup chat (callback_message_id (state user))
                       (callback_message_inline_markup (state user)))
         in (user\<lparr>state := (state user)\<lparr>callback_message_id := None\<rparr>\<rparr>, [call])))"

text \<open>\<open>BaseCallback.validate_user\<close> and \<open>BaseChatHandler.validate_user\<close>.\<close>

definition BaseCallback_validate_user :: "common \<Rightarrow> User option \<Rightarrow> py_error + bool" where
  "BaseCallback_validate_user c user =
     (case user of
        None \<Rightarrow>
          (case errors_get c ''user_not_registered'' of
             Inl e \<Rightarrow> Inl e
           | Inr content \<Rightarrow> Inr False)
      | Some u \<Rightarrow> Inr True)"

text \<open>The attributes \<open>BaseHandler.__init__\<close> reads from the flow's configuration.\<close>

record BaseHandler =
  self_content :: string
  self_current_flow :: string
  self_photo :: "string option"
  self_is_nested :: bool
  self_privileged :: bool
  self_parent_name :: string

definition BaseHandler_validate_user ::
  "common \<Rightarrow> 'a BaseHandler_scheme \<Rightarrow> User option \<Rightarrow> py_error + bool" where
  "BaseHandler_validate_user c self user =
     (case user of
        None \<Rightarrow>
          (case errors_get c ''user_not_registered'' of
             Inl e \<Rightarrow> Inl e
           | Inr content \<Rightarrow> Inr False)
      | Some u \<Rightarrow>
          if self_privileged self \<and> \<not> is_vip u
          then (case errors_get c ''user_not_allowed'' of
                  Inl e \<Rightarrow> Inl e
                | Inr content \<Rightarrow> Inr False)
          else Inr True)"

text \<open>The names of the buttons of a flow's menu: \<open>self.menus.get(flow, [])\<close>.\<close>

definition button_names :: "common \<Rightarrow> string \<Rightarrow> string list" where
  "button_names c flow = map button_name (case menus c flow of None \<Rightarrow> [] | Some bs \<Rightarrow> bs)"

text \<open>\<open>BaseHandler.validate_flow\<close>; \<open>flow_stack[-1]\<close> raises on an empty stack.\<close>

definition validate_flow :: "common \<Rightarrow> 'a BaseHandler_scheme \<Rightarrow> User \<Rightarrow> py_error + bool" where
  "validate_flow c self user =
     (if flow_stack (state user) = [] then Inl IndexError
      else
        (let user_current_flow = last (flow_stack (state user)) in
         if user_current_flow = self_current_flow self then Inr True
         else if self_is_nested self
         then (if self_current_flow self \<notin> set (button_names c user_current_flow)
               then (case errors_get c ''button_not_found'' of
                       Inl e \<Rightarrow> Inl e
                     | Inr content \<Rightarrow> Inr False)
               else Inr True)
         else (if user_current_flow \<noteq> ''main''
               then (case errors_get c ''button_not_found'' of
                       Inl e \<Rightarrow> Inl e
                     | Inr content \<Rightarrow> Inr False)
               else Inr True)))"


section \<open>core/handlers.py\<close>

record StaticHandler = BaseHandler +
  self_inline_markup :: "markup option"

definition StaticHandler_body ::
  "common \<Rightarrow> StaticHandler \<Rightarrow> update \<Rightarrow> MaxClient \<Rightarrow> User option \<Rightarrow> run" where
  "StaticHandler_body c self upd client user =
     (case upd_message upd of
        None \<Rightarrow> returns user user []
      | Some m \<Rightarrow>
          (case BaseHandler_validate_user c self user of
             Inl e \<Rightarrow> raises e user []
           | Inr is_valid \<Rightarrow>
               if \<not> is_valid then returns user user []
               else
                 (case BaseResponse_send_message upd client (self_content self)
                         (self_photo self) None (self_inline_markup self) of
                    (sent, tr) \<Rightarrow> returns user user tr)))"

definition StaticHandler_call ::
  "common \<Rightarrow> StaticHandler \<Rightarrow> update \<Rightarrow> MaxClient \<Rightarrow> User option
     \<Rightarrow> User option \<times> client_call list" where
  "StaticHandler_call c self upd client user = middleware (StaticHandler_body c self upd client user)"

record ExtendedStaticHandler = BaseHandler +
  self_keyboard_vip :: markup
  self_keyboard_all :: markup

definition ExtendedStaticHandler_body ::
  "common \<Rightarrow> ExtendedStaticHandler \<Rightarrow> update \<Rightarrow> MaxClient \<Rightarrow> User option \<Rightarrow> run" where
  "ExtendedStaticHandler_body c self upd client user =
     (case upd_message upd of
        None \<Rightarrow> returns None user []
      | Some m \<Rightarrow>
          (case BaseHandler_validate_user c self user of
             Inl e \<Rightarrow> raises e user []
           | Inr is_valid \<Rightarrow>
               if \<not> is_valid then returns user user []
               else
                 (case user of
                    None \<Rightarrow> raises AttributeError None []
                  | Some u \<Rightarrow>
                      (let u1 = (if \<not> self_is_nested self
                                 then u\<lparr>state := (state u)\<lparr>flow_stack := [''main'']\<rparr>\<rparr>
                                 else u)
                       in case validate_flow c self u1 of
                            Inl e \<Rightarrow> raises e (Some u1) []
                          | Inr flow_valid \<Rightarrow>
                              if \<not> flow_valid then returns (Some u1) (Some u1) []
                              else
                                (let u2 = u1\<lparr>state := (state u1)
                                            \<lparr>flow_stack := flow_stack (state u1) @ [self_current_flow self]\<rparr>\<rparr>;
                                     keyboard_markup =
                                       (if is_vip u2 then self_keyboard_vip self
                                        else self_keyboard_all self)
                                 in case BaseResponse_send_message upd client (self_content self)
                                           (self_photo self) None (Some keyboard_markup) of
                                      (sent, tr) \<Rightarrow> returns (Some u2) (Some u2) tr)))))"

definition ExtendedStaticHandler_call ::
  "common \<Rightarrow> ExtendedStaticHandler \<Rightarrow> update \<Rightarrow> MaxClient \<Rightarrow> User option
     \<Rightarrow> User option \<times> client_call list" where
  "ExtendedStaticHandler_call c self upd client user =
     middleware (ExtendedStaticHandler_body c self upd client user)"

text \<open>
  \<open>MaxBot._add_flow_handler\<close> sets \<open>is_nested\<close> in the configuration of every managed
  flow before it builds the handler.
\<close>

record ManagedHandler = BaseHandler +
  self_search_type :: string
  self_use_pagination :: bool

definition ManagedHandler_body ::
  "common \<Rightarrow> ManagedHandler \<Rightarrow> update \<Rightarrow> MaxClient \<Rightarrow> User option \<Rightarrow> run" where
  "ManagedHandler_body c self upd client user =
     (case upd_message upd of
        None \<Rightarrow> returns None user []
      | Some m \<Rightarrow>
          (case BaseHandler_validate_user c self user of
             Inl e \<Rightarrow> raises e user []
           | Inr is_valid \<Rightarrow>
               if \<not> is_valid then returns user user []
               else
                 (case user of
                    None \<Rightarrow> raises AttributeError None []
                  | Some u \<Rightarrow>
                      (case validate_flow c self u of
                         Inl e \<Rightarrow> raises e (Some u) []
                       | Inr flow_valid \<Rightarrow>
                           if \<not> flow_valid then returns (Some u) (Some u) []
                           else
                             (let u1 = u\<lparr>state := (state u)
                                         \<lparr>search_type := self_search_type self,
                                          flow_stack := flow_stack (state u) @ [self_current_flow self],
                                          use_pagination := self_use_pagination self\<rparr>\<rparr>
                              in case BaseResponse_send_message upd client (self_content self)
                                        (self_photo self) None None of
                                   (sent, tr) \<Rightarrow> returns (Some u1) (Some u1) tr)))))"

definition ManagedHandler_call ::
  "common \<Rightarrow> ManagedHandler \<Rightarrow> update \<Rightarrow> MaxClient \<Rightarrow> User option
     \<Rightarrow> User option \<times> client_call list" where
  "ManagedHandler_call c self upd client user = middleware (ManagedHandler_body c self upd client user)"

record ChatHandler =
  self_markup_no_pagination :: markup
  self_markup_with_pagination :: markup

text \<open>
  The part of \<open>ChatHandler.__call__\<close> that reads the AI response: the text to show, or
  the exception, and the user as mutated up to there. \<open>cards[0]\<close> raises on an empty
  list, after the three card fields are written. Without pagination the text is
  \<open>response.get("answer", not_found)\<close>; an answer that is null gives None, on which
  the test for the placeholder link, the next statement, raises TypeError.
\<close>

definition ChatHandler_interpret ::
  "common \<Rightarrow> ai_response \<Rightarrow> User \<Rightarrow> (py_error + string) \<times> User" where
  "ChatHandler_interpret c response u =
     (if answer_truthy (answer response) \<or> truthy (cards response)
          \<or> truthy (product_cards response)
      then
        (if use_pagination (state u)
         then
           (case (case cards response of
                    None \<Rightarrow> product_cards response
                  | Some cs \<Rightarrow> Some cs) of
              Some cs \<Rightarrow>
                (let total_length = int (length cs);
                     u' = u\<lparr>state := (state u)
                            \<lparr>cards_json := Some cs, cards_current_page := 0,
                             cards_total_length := total_length\<rparr>\<rparr>
                 in case cs of
                      [] \<Rightarrow> (Inl IndexError, u')
                    | first_card # rest \<Rightarrow> (Inr (card_from_json first_card 0 (total_length - 1)), u'))
            | None \<Rightarrow> (errors_get c ''query_not_found'', u))
         else
           (case errors_get c ''query_not_found'' of
              Inl e \<Rightarrow> (Inl e, u)
            | Inr not_found \<Rightarrow>
                (case answer response of
                   Absent \<Rightarrow> (Inr not_found, u)
                 | Text a \<Rightarrow> (Inr a, u)
                 | Null \<Rightarrow> (Inl TypeError, u))))
      else (errors_get c ''query_not_found'', u\<lparr>state := (state u)\<lparr>cards_json := None\<rparr>\<rparr>))"

text \<open>The request sent to the AI search service.\<close>

definition ChatHandler_payload :: "User \<Rightarrow> string \<Rightarrow> ai_payload" where
  "ChatHandler_payload u message_text =
     (let kind = (if search_type (state u) = ''companies'' then (''semfuz'', ''cmp'')
                  else if search_type (state u) = ''products'' then (''semfuz'', ''prdcts'')
                  else (''gpt'', ''faq''))
      in \<lparr>p_search_type = fst kind,
          top_k = (if use_pagination (state u) then 10 else 1),
          database_name = snd kind,
          history = message_text\<rparr>)"

text \<open>
  The end of \<open>ChatHandler.__call__\<close>, once the text is known: the placeholder link is
  replaced, the keyboard chosen, the keyboard of the tracked message cleared, the
  message sent and tracked.
\<close>

definition ChatHandler_deliver ::
  "ChatHandler \<Rightarrow> update \<Rightarrow> MaxClient \<Rightarrow> message \<Rightarrow> string \<Rightarrow> User \<Rightarrow> run" where
  "ChatHandler_deliver self upd client m text0 u =
     (let content = (if sublist ''https://ya.ru'' text0 then lit_no_information else text0);
          inline_markup =
            (if use_pagination (state u) \<and> cards_json (state u) \<noteq> None
                \<and> cards_total_length (state u) > 1
             then self_markup_with_pagination self
             else self_markup_no_pagination self)
      in case chat_id m of
           None \<Rightarrow> raises KeyError (Some u) []
         | Some chat \<Rightarrow>
             (case BaseResponse_remove_callback_buttons client u chat of
                (u3, tr1) \<Rightarrow>
                  (case BaseResponse_send_message upd client content None None
                          (Some inline_markup) of
                     (sent_message, tr2) \<Rightarrow>
                       (let u4 =
                              (case sent_message of
                                 Some (kv # kvs) \<Rightarrow>
                                   u3\<lparr>state := (state u3)
                                     \<lparr>callback_message_inline_markup := None,
                                      callback_message_need_to_delete := False,
                                      callback_message_id := map_of (kv # kvs) ''message_id''\<rparr>\<rparr>
                               | _ \<Rightarrow> u3)
                        in returns (Some u4) (Some u4) (tr1 @ tr2)))))"

definition ChatHandler_body ::
  "common \<Rightarrow> ChatHandler \<Rightarrow> AIClient \<Rightarrow> update \<Rightarrow> MaxClient \<Rightarrow> User option \<Rightarrow> run" where
  "ChatHandler_body c self ai upd client user =
     (case upd_message upd of
        None \<Rightarrow> returns None user []
      | Some m \<Rightarrow>
          (case BaseCallback_validate_user c user of
             Inl e \<Rightarrow> raises e user []
           | Inr is_valid \<Rightarrow>
               if \<not> is_valid then returns user user []
               else
                 (case user of
                    None \<Rightarrow> raises AttributeError None []
                  | Some u \<Rightarrow>
                      if flow_stack (state u) = [] then raises IndexError (Some u) []
                      else
                        (let user_current_flow = last (flow_stack (state u));
                             u1 = (if user_current_flow \<notin> managed_flows c
                                      \<and> user_current_flow \<noteq> EMPTY_STR
                                   then u\<lparr>state := (state u)
                                          \<lparr>use_pagination := False, search_type := ''questions'',
                                           flow_stack := flow_stack (state u) @ [EMPTY_STR]\<rparr>\<rparr>
                                   else u);
                             message_text = (case msg_text m of None \<Rightarrow> [] | Some t \<Rightarrow> t)
                         in case ai (ChatHandler_payload u1 message_text) of
                              None \<Rightarrow> raises ClientError (Some u1) []
                            | Some response \<Rightarrow>
                                (case ChatHandler_interpret c response u1 of
                                   (Inl e, u2) \<Rightarrow> raises e (Some u2) []
                                 | (Inr text0, u2) \<Rightarrow>
                                     ChatHandler_deliver self upd client m text0 u2)))))"

definition ChatHandler_call ::
  "common \<Rightarrow> ChatHandler \<Rightarrow> AIClient \<Rightarrow> update \<Rightarrow> MaxClient \<Rightarrow> User option
     \<Rightarrow> User option \<times> client_call list" where
  "ChatHandler_call c self ai upd client user = middleware (ChatHandler_body c self ai upd client user)"

section \<open>core/callbacks.py\<close>

text \<open>
  \<open>ExitCallback.__init__\<close> builds, for every menu, the keyboard for VIP users and the
  keyboard for all users.
\<close>

record ExitCallback =
  exit_content :: string
  exit_keyboard_markup :: "string \<rightharpoonup> markup \<times> markup"

definition ExitCallback_body ::
  "common \<Rightarrow> ExitCallback \<Rightarrow> update \<Rightarrow> MaxClient \<Rightarrow> User option \<Rightarrow> run" where
  "ExitCallback_body c self upd client user =
     (case upd_callback_query upd of
        None \<Rightarrow> returns user user []
      | Some cq \<Rightarrow>
          (case BaseCallback_validate_user c user of
             Inl e \<Rightarrow> raises e user []
           | Inr is_valid \<Rightarrow>
               if \<not> is_valid then returns user user []
               else
                 (case user of
                    None \<Rightarrow> raises AttributeError None []
                  | Some u \<Rightarrow>
                      (let u1 = (if length (flow_stack (state u)) > 1
                                 then u\<lparr>state := (state u)\<lparr>flow_stack := butlast (flow_stack (state u))\<rparr>\<rparr>
                                 else u);
                           u2 = u1\<lparr>state := (state u1)
                                  \<lparr>use_pagination := False, search_type := [], cards_json := None\<rparr>\<rparr>;
                           current_flow_name =
                             (if flow_stack (state u2) \<noteq> [] then last (flow_stack (state u2))
                              else ''main'');
                           keyboard_markup =
                             (case exit_keyboard_markup self current_flow_name of
                                None \<Rightarrow> None
                              | Some (vip, all) \<Rightarrow> Some (if is_vip u2 then vip else all))
                       in case cq_message cq of
                            None \<Rightarrow> returns (Some u2) (Some u2) []
                          | Some m \<Rightarrow>
                              (case chat_id m of
                                 None \<Rightarrow> raises KeyError (Some u2) []
                               | Some chat \<Rightarrow>
                                   if chat \<noteq> 0 \<and> keyboard_markup \<noteq> None
                                   then
                                     (let call = send_message chat (exit_content self) keyboard_markup
                                      in case client call of
                                           None \<Rightarrow> raises ClientError (Some u2) [call]
                                         | Some reply \<Rightarrow> returns (Some u2) (Some u2) [call])
                                   else returns (Some u2) (Some u2) [])))))"

definition ExitCallback_call ::
  "common \<Rightarrow> ExitCallback \<Rightarrow> update \<Rightarrow> MaxClient \<Rightarrow> User option
     \<Rightarrow> User option \<times> client_call list" where
  "ExitCallback_call c self upd client user = middleware (ExitCallback_body c self upd client user)"

definition HideMessageCallback_body ::
  "common \<Rightarrow> update \<Rightarrow> MaxClient \<Rightarrow> User option \<Rightarrow> run" where
  "HideMessageCallback_body c upd client user =
     (case upd_callback_query upd of
        None \<Rightarrow> returns user user []
      | Some cq \<Rightarrow>
          (case BaseCallback_validate_user c user of
             Inl e \<Rightarrow> raises e user []
           | Inr is_valid \<Rightarrow>
               if \<not> is_valid then returns user user []
               else
                 (case cq_message cq of
                    None \<Rightarrow> returns user user []
                  | Some m \<Rightarrow>
                      (case chat_id m of
                         None \<Rightarrow> raises KeyError user []
                       | Some chat \<Rightarrow>
                           (let call = delete_message chat (Some (message_id m))
                            in case client call of
                                 None \<Rightarrow> raises ClientError user [call]
                               | Some reply \<Rightarrow> returns user user [call])))))"

definition HideMessageCallback_call ::
  "common \<Rightarrow> update \<Rightarrow> MaxClient \<Rightarrow> User option \<Rightarrow> User option \<times> client_call list" where
  "HideMessageCallback_call c upd client user = middleware (HideMessageCallback_body c upd client user)"

text \<open>The two page moves of \<open>PaginationCallback.__call__\<close>.\<close>

definition previous_page :: "User \<Rightarrow> User" where
  "previous_page u =
     (if cards_current_page (state u) > 0
      then u\<lparr>state := (state u)\<lparr>cards_current_page := cards_current_page (state u) - 1\<rparr>\<rparr>
      else u)"

definition next_page :: "User \<Rightarrow> User" where
  "next_page u =
     (if cards_current_page (state u) < cards_total_length (state u) - 1
      then u\<lparr>state := (state u)\<lparr>cards_current_page := cards_current_page (state u) + 1\<rparr>\<rparr>
      else u)"

text \<open>\<open>InlineButton(**self.buttons[key])\<close>.\<close>

definition buttons_get :: "common \<Rightarrow> string \<Rightarrow> py_error + InlineButton" where
  "buttons_get c key = (case buttons c key of None \<Rightarrow> Inl KeyError | Some b \<Rightarrow> Inr b)"

text \<open>
  The rest of \<open>PaginationCallback.__call__\<close> once the page is set: render the card,
  build the keyboard, edit the message, answer the callback. The user is not written
  any more.
\<close>

definition PaginationCallback_render ::
  "common \<Rightarrow> callback_query \<Rightarrow> MaxClient \<Rightarrow> User \<Rightarrow> run" where
  "PaginationCallback_render c cq client u =
     (case py_index (case cards_json (state u) of None \<Rightarrow> [] | Some cs \<Rightarrow> cs)
             (cards_current_page (state u)) of
        Inl e \<Rightarrow> raises e (Some u) []
      | Inr current_card \<Rightarrow>
      (case buttons_get c ''previous'' of Inl e \<Rightarrow> raises e (Some u) [] | Inr previous_button \<Rightarrow>
      (case buttons_get c ''next'' of Inl e \<Rightarrow> raises e (Some u) [] | Inr next_button \<Rightarrow>
      (case buttons_get c ''inactive'' of Inl e \<Rightarrow> raises e (Some u) [] | Inr inactive_button \<Rightarrow>
      (case buttons_get c ''accept'' of Inl e \<Rightarrow> raises e (Some u) [] | Inr accept_button \<Rightarrow>
      (case buttons_get c ''exit'' of Inl e \<Rightarrow> raises e (Some u) [] | Inr exit_button \<Rightarrow>
         (let content = card_from_json current_card (cards_current_page (state u))
                          (cards_total_length (state u) - 1);
              nav_buttons =
                [if cards_current_page (state u) > 0 then previous_button else inactive_button,
                 accept_button,
                 if cards_current_page (state u) < cards_total_length (state u) - 1
                 then next_button else inactive_button];
              inline_markup = build_inline_keyboard [nav_buttons, [exit_button]];
              answer_calls =
                (case cq_id cq of
                   Some (i # is) \<Rightarrow> [answer_callback_query (i # is) None]
                 | _ \<Rightarrow> [])
          in case cq_message cq of
               None \<Rightarrow>
                 (case perform client answer_calls of
                    (None, tr) \<Rightarrow> returns (Some u) (Some u) tr
                  | (Some e, tr) \<Rightarrow> raises e (Some u) tr)
             | Some m \<Rightarrow>
                 (case chat_id m of
                    None \<Rightarrow> raises KeyError (Some u) []
                  | Some chat \<Rightarrow>
                      (let edit = edit_message_reply_markup chat (Some (message_id m))
                                    (Some inline_markup)
                       in case perform client (edit # answer_calls) of
                            (None, tr) \<Rightarrow> returns (Some u) (Some u) tr
                          | (Some e, tr) \<Rightarrow> raises e (Some u) tr)))))))))"

definition PaginationCallback_body ::
  "common \<Rightarrow> update \<Rightarrow> MaxClient \<Rightarrow> User option \<Rightarrow> run" where
  "PaginationCallback_body c upd client user =
     (case upd_callback_query upd of
        None \<Rightarrow> returns user user []
      | Some cq \<Rightarrow>
          (case BaseCallback_validate_user c user of
             Inl e \<Rightarrow> raises e user []
           | Inr is_valid \<Rightarrow>
               if \<not> is_valid then returns user user []
               else
                 (case user of
                    None \<Rightarrow> raises AttributeError None []
                  | Some u \<Rightarrow>
                      if \<not> truthy (cq_data cq) \<or> \<not> truthy (cards_json (state u))
                      then returns (Some u) (Some u) []
                      else
                        (let callback_data = (case cq_data cq of None \<Rightarrow> [] | Some d \<Rightarrow> d) in
                         if callback_data = ''previous_callback''
                         then PaginationCallback_render c cq client (previous_page u)
                         else if callback_data = ''next_callback''
                         then PaginationCallback_render c cq client (next_page u)
                         else if callback_data = ''accept_callback''
                         then PaginationCallback_render c cq client u
                         else if callback_data = ''inactive_callback''
                         then
                           (case cq_id cq of
                              Some (i # is) \<Rightarrow>
                                (let call = answer_callback_query (i # is) (Some lit_first_page)
                                 in case client call of
                                      None \<Rightarrow> raises ClientError (Some u) [call]
                                    | Some reply \<Rightarrow> returns (Some u) (Some u) [call])
                            | _ \<Rightarrow> returns (Some u) (Some u) [])
                         else PaginationCallback_render c cq client u))))"

definition PaginationCallback_call ::
  "common \<Rightarrow> update \<Rightarrow> MaxClient \<Rightarrow> User option \<Rightarrow> User option \<times> client_call list" where
  "PaginationCallback_call c upd client user = middleware (PaginationCallback_body c upd client user)"


section \<open>core/commands.py\<close>

record BaseCommand =
  command_content :: string
  main_menu_vip :: markup
  main_menu_all :: markup

definition StartCommand_body :: "BaseCommand \<Rightarrow> update \<Rightarrow> MaxClient \<Rightarrow> User option \<Rightarrow> run" where
  "StartCommand_body self upd client user =
     (case user of
        None \<Rightarrow> returns None None []
      | Some u \<Rightarrow>
          (let u1 = u\<lparr>state := (state u)
                      \<lparr>flow_stack := [''main''], use_pagination := False,
                       search_type := [], cards_json := None\<rparr>\<rparr>;
               keyboard_markup = (if is_vip u1 then main_menu_vip self else main_menu_all self)
           in case BaseResponse_send_message upd client (command_content self) None None
                     (Some keyboard_markup) of
                (sent, tr) \<Rightarrow> returns (Some u1) (Some u1) tr))"

definition StartCommand_call ::
  "BaseCommand \<Rightarrow> update \<Rightarrow> MaxClient \<Rightarrow> User option \<Rightarrow> User option \<times> client_call list" where
  "StartCommand_call self upd client user = middleware (StartCommand_body self upd client user)"

definition ResetCommand_body :: "BaseCommand \<Rightarrow> update \<Rightarrow> MaxClient \<Rightarrow> User option \<Rightarrow> run" where
  "ResetCommand_body self upd client user =
     (case user of
        None \<Rightarrow> returns None None []
      | Some u \<Rightarrow>
          (let u1 = u\<lparr>state := (state u)
                      \<lparr>flow_stack := [''main''], use_pagination := False,
                       search_type := [], cards_json := None, callback_message_id := None\<rparr>\<rparr>;
               keyboard_markup = (if is_vip u1 then main_menu_vip self else main_menu_all self)
           in case BaseResponse_send_message upd client (command_content self) None None
                     (Some keyboard_markup) of
                (sent, tr) \<Rightarrow> returns (Some u1) (Some u1) tr))"

definition ResetCommand_call ::
  "BaseCommand \<Rightarrow> update \<Rightarrow> MaxClient \<Rightarrow> User option \<Rightarrow> User option \<times> client_call list" where
  "ResetCommand_call self upd client user = middleware (ResetCommand_body self upd client user)"


section \<open>core/bot.py\<close>

text \<open>
  The fields \<open>_process_callback\<close> reads from a \<open>message_callback\<close> update. The user id
  is the platform's integer; the timestamp is \<open>callback.get("timestamp", 0)\<close>.
\<close>

record callback_event =
  cb_user_id :: "int option"
  cb_payload :: "string option"
  cb_timestamp :: "int option"
  cb_chat_id :: "int option"

definition deduplication_window_ms :: int where
  "deduplication_window_ms = 2000"

text \<open>The cache key \<open>f"{user_id}:{callback_payload}"\<close>.\<close>

definition dedup_key :: "int \<Rightarrow> string \<Rightarrow> string" where
  "dedup_key uid payload = str_int uid @ '':'' @ payload"

text \<open>Recording the timestamp and deleting the entries older than ten seconds.\<close>

definition record_and_prune :: "(string \<rightharpoonup> int) \<Rightarrow> string \<Rightarrow> int \<Rightarrow> (string \<rightharpoonup> int)" where
  "record_and_prune cache key callback_timestamp =
     (\<lambda>k. case (cache(key \<mapsto> callback_timestamp)) k of
             None \<Rightarrow> None
           | Some ts \<Rightarrow> if callback_timestamp - ts > 10000 then None else Some ts)"

text \<open>
  The deduplication block of \<open>_process_callback\<close>: whether the event is dropped as a
  duplicate, and the cache afterwards. A user id or payload that is absent, zero or
  empty skips the block.
\<close>

definition deduplicate :: "(string \<rightharpoonup> int) \<Rightarrow> callback_event \<Rightarrow> bool \<times> (string \<rightharpoonup> int)" where
  "deduplicate cache ev =
     (let callback_timestamp = (case cb_timestamp ev of None \<Rightarrow> 0 | Some t \<Rightarrow> t) in
      case (cb_user_id ev, cb_payload ev) of
        (Some uid, Some (p # ps)) \<Rightarrow>
          if uid = 0 then (False, cache)
          else
            (let key = dedup_key uid (p # ps) in
             case cache key of
               None \<Rightarrow> (False, record_and_prune cache key callback_timestamp)
             | Some last_timestamp \<Rightarrow>
                 if callback_timestamp - last_timestamp < deduplication_window_ms
                 then (True, cache)
                 else (False, record_and_prune cache key callback_timestamp))
      | _ \<Rightarrow> (False, cache))"

text \<open>
  \<open>_process_callback\<close> up to the choice of the handler. The log line before the
  deduplication block slices the payload, which raises TypeError when there is none;
  \<open>process_update\<close> catches and logs it.
\<close>

datatype 'h dispatched =
    Duplicate
  | Crashed py_error
  | No_payload
  | No_chat
  | No_handler
  | Invoked 'h

text \<open>
  The part after the deduplication block: an empty payload and a missing chat id end
  the event; the specialized callback handlers are looked up before the flow handlers.
\<close>

definition route ::
  "(string \<rightharpoonup> 'h) \<Rightarrow> (string \<rightharpoonup> 'h) \<Rightarrow> callback_event \<Rightarrow> string \<Rightarrow> 'h dispatched" where
  "route callback_handlers handlers ev callback_payload =
     (if callback_payload = [] then No_payload
      else if cb_chat_id ev = None \<or> cb_chat_id ev = Some 0 then No_chat
      else
        (case callback_handlers callback_payload of
           Some handler \<Rightarrow> Invoked handler
         | None \<Rightarrow>
             (case handlers callback_payload of
                Some handler \<Rightarrow> Invoked handler
              | None \<Rightarrow> No_handler)))"

definition process_callback ::
  "(string \<rightharpoonup> 'h) \<Rightarrow> (string \<rightharpoonup> 'h) \<Rightarrow> (string \<rightharpoonup> int) \<Rightarrow> callback_event
     \<Rightarrow> 'h dispatched \<times> (string \<rightharpoonup> int)" where
  "process_callback callback_handlers handlers cache ev =
     (case cb_payload ev of
        None \<Rightarrow> (Crashed TypeError, cache)
      | Some callback_payload \<Rightarrow>
          (case deduplicate cache ev of
             (True, cache') \<Rightarrow> (Duplicate, cache')
           | (False, cache') \<Rightarrow> (route callback_handlers handlers ev callback_payload, cache')))"

text \<open>
  The callback events of a polling batch, one after the other on the same cache
  (\<open>start_polling\<close> awaits each \<open>process_update\<close> before the next).
\<close>

fun process_callbacks ::
  "(string \<rightharpoonup> 'h) \<Rightarrow> (string \<rightharpoonup> 'h) \<Rightarrow> (string \<rightharpoonup> int) \<Rightarrow> callback_event list
     \<Rightarrow> 'h dispatched list" where
  "process_callbacks callback_handlers handlers cache [] = []"
| "process_callbacks callback_handlers handlers cache (ev # evs) =
     (case process_callback callback_handlers handlers cache ev of
        (d, cache') \<Rightarrow> d # process_callbacks callback_handlers handlers cache' evs)"

text \<open>
  One update of a user: \<open>process_update\<close> loads the user with the stored state, calls
  a handler, and stores the state of the user the handler returns; a handler that
  returns no user stores nothing.
\<close>

datatype core_op =
    Start BaseCommand update MaxClient
  | Reset BaseCommand update MaxClient
  | Static StaticHandler update MaxClient
  | ExtendedStatic ExtendedStaticHandler update MaxClient
  | Managed ManagedHandler update MaxClient
  | Chat ChatHandler AIClient update MaxClient
  | Exit ExitCallback update MaxClient
  | Hide update MaxClient
  | Pagination update MaxClient

fun handle :: "common \<Rightarrow> core_op \<Rightarrow> User option \<Rightarrow> User option \<times> client_call list" where
  "handle c (Start self upd client) user = StartCommand_call self upd client user"
| "handle c (Reset self upd client) user = ResetCommand_call self upd client user"
| "handle c (Static self upd client) user = StaticHandler_call c self upd client user"
| "handle c (ExtendedStatic self upd client) user = ExtendedStaticHandler_call c self upd client user"
| "handle c (Managed self upd client) user = ManagedHandler_call c self upd client user"
| "handle c (Chat self ai upd client) user = ChatHandler_call c self ai upd client user"
| "handle c (Exit self upd client) user = ExitCallback_call c self upd client user"
| "handle c (Hide upd client) user = HideMessageCallback_call c upd client user"
| "handle c (Pagination upd client) user = PaginationCallback_call c upd client user"

definition process_update :: "common \<Rightarrow> User \<Rightarrow> core_op \<Rightarrow> User" where
  "process_update c u op =
     (case fst (handle c op (Some u)) of
        None \<Rightarrow> u
      | Some updated_user \<Rightarrow> u\<lparr>state := state updated_user\<rparr>)"

definition process_updates :: "common \<Rightarrow> User \<Rightarrow> core_op list \<Rightarrow> User" where
  "process_updates c u ops = foldl (process_update c) u ops"

section \<open>Invariants and a small configuration\<close>

definition stack_ok :: "string list \<Rightarrow> bool" where
  "stack_ok fs = (fs \<noteq> [] \<and> hd fs = ''main'')"

text \<open>
  A configuration with the root flows \<open>Catalog\<close> and \<open>About\<close>, and under
  \<open>Catalog\<close> the nested flows \<open>Services\<close> and \<open>Search\<close> (managed).
\<close>

definition example_common :: common where
  "example_common =
     \<lparr>menus = [''main'' \<mapsto> [\<lparr>button_name = ''Catalog'', button_privileged = False\<rparr>,
                             \<lparr>button_name = ''About'', button_privileged = False\<rparr>],
               ''Catalog'' \<mapsto> [\<lparr>button_name = ''Services'', button_privileged = False\<rparr>,
                                \<lparr>button_name = ''Search'', button_privileged = False\<rparr>],
               ''Services'' \<mapsto> []],
      errors = [''user_not_registered'' \<mapsto> ''register first'',
                ''user_not_allowed'' \<mapsto> ''not allowed'',
                ''button_not_found'' \<mapsto> ''not available'',
                ''query_not_found'' \<mapsto> ''nothing found''],
      buttons = [''exit'' \<mapsto> \<lparr>inline_name = ''Back'', url = None, pattern = Some ''exit_callback''\<rparr>,
                 ''next'' \<mapsto> \<lparr>inline_name = ''>'', url = None, pattern = Some ''next_callback''\<rparr>,
                 ''previous'' \<mapsto> \<lparr>inline_name = ''<'', url = None, pattern = Some ''previous_callback''\<rparr>,
                 ''accept'' \<mapsto> \<lparr>inline_name = ''ok'', url = None, pattern = Some ''accept_callback''\<rparr>,
                 ''inactive'' \<mapsto> \<lparr>inline_name = ''.'', url = None, pattern = Some ''inactive_callback''\<rparr>],
      managed_flows = {''Search''}\<rparr>"

definition about_handler :: ExtendedStaticHandler where
  "about_handler =
     \<lparr>self_content = ''About us'', self_current_flow = ''About'', self_photo = None,
      self_is_nested = False, self_privileged = False, self_parent_name = ''main'',
      self_keyboard_vip = [], self_keyboard_all = []\<rparr>"

definition services_handler :: ExtendedStaticHandler where
  "services_handler =
     \<lparr>self_content = ''Our services'', self_current_flow = ''Services'', self_photo = None,
      self_is_nested = True, self_privileged = False, self_parent_name = ''Catalog'',
      self_keyboard_vip = [], self_keyboard_all = []\<rparr>"

definition search_handler :: ManagedHandler where
  "search_handler =
     \<lparr>self_content = ''What are you looking for?'', self_current_flow = ''Search'',
      self_photo = None, self_is_nested = True, self_privileged = False,
      self_parent_name = ''Catalog'', self_search_type = ''products'', self_use_pagination = True\<rparr>"

definition example_user :: "string list \<Rightarrow> User" where
  "example_user fs =
     \<lparr>user_id = 1, is_vip = False, is_admin = False, state = default_state\<lparr>flow_stack := fs\<rparr>\<rparr>"

definition text_update :: "string \<Rightarrow> update" where
  "text_update t =
     \<lparr>upd_message = Some \<lparr>msg_text = Some t, chat_id = Some 7, message_id = ''m1''\<rparr>,
      upd_callback_query = None\<rparr>"

definition ok_client :: MaxClient where
  "ok_client = (\<lambda>call. Some [(''message_id'', ''m2'')])"

definition exit_callback :: ExitCallback where
  "exit_callback =
     \<lparr>exit_content = ''Back to the menu'',
      exit_keyboard_markup = [''main'' \<mapsto> ([], []), ''Catalog'' \<mapsto> ([], [])]\<rparr>"

definition callback_update :: "string \<Rightarrow> update" where
  "callback_update payload =
     \<lparr>upd_message = Some \<lparr>msg_text = None, chat_id = Some 7, message_id = ''m1''\<rparr>,
      upd_callback_query =
        Some \<lparr>cq_data = Some payload,
              cq_message = Some \<lparr>msg_text = None, chat_id = Some 7, message_id = ''m1''\<rparr>,
              cq_id = None\<rparr>\<rparr>"

definition three_cards :: "card list" where
  "three_cards = [[(''name'', ''Laptop A'')], [(''name'', ''Laptop B'')], [(''title'', ''Laptop C'')]]"

definition cards_user :: "int \<Rightarrow> User" where
  "cards_user page =
     \<lparr>user_id = 1, is_vip = False, is_admin = False,
      state = default_state
        \<lparr>use_pagination := True, flow_stack := [''main'', ''Catalog'', ''Search''],
         search_type := ''products'', cards_json := Some three_cards,
         cards_current_page := page, cards_total_length := 3\<rparr>\<rparr>"

definition info_handler :: StaticHandler where
  "info_handler =
     \<lparr>self_content = ''Opening hours'', self_current_flow = ''Info'', self_photo = None,
      self_is_nested = False, self_privileged = False, self_parent_name = ''main'',
      self_inline_markup = None\<rparr>"

definition press :: "int \<Rightarrow> callback_event" where
  "press t = \<lparr>cb_user_id = Some 5, cb_payload = Some ''next_callback'',
              cb_timestamp = Some t, cb_chat_id = Some 7\<rparr>"

text \<open>The callback table of the bot, by the name of the handler class.\<close>

definition callback_table :: "string \<rightharpoonup> string" where
  "callback_table =
     [''exit_callback'' \<mapsto> ''ExitCallback'', ''hide_callback'' \<mapsto> ''HideMessageCallback'',
      ''previous_callback'' \<mapsto> ''PaginationCallback'', ''next_callback'' \<mapsto> ''PaginationCallback'',
      ''inactive_callback'' \<mapsto> ''PaginationCallback'', ''accept_callback'' \<mapsto> ''PaginationCallback'']"

text \<open>The header of the first of three cards, without the emoji: "result 1 of 3".\<close>

definition header_1_of_3 :: string where
  "header_1_of_3 = lit_result @ '' 1 '' @ lit_of @ '' 3''"

definition chat_handler :: ChatHandler where
  "chat_handler =
     \<lparr>self_markup_no_pagination = build_inline_keyboard
        [[\<lparr>inline_name = ''Back'', url = None, pattern = Some ''exit_callback''\<rparr>]],
      self_markup_with_pagination = build_inline_keyboard
        [[\<lparr>inline_name = ''.'', url = None, pattern = Some ''inactive_callback''\<rparr>,
          \<lparr>inline_name = ''ok'', url = None, pattern = Some ''accept_callback''\<rparr>,
          \<lparr>inline_name = ''>'', url = None, pattern = Some ''next_callback''\<rparr>],
         [\<lparr>inline_name = ''Back'', url = None, pattern = Some ''exit_callback''\<rparr>]]\<rparr>"

definition three_cards_ai :: AIClient where
  "three_cards_ai =
     (\<lambda>payload. Some \<lparr>answer = Absent, cards = None, product_cards = Some three_cards\<rparr>)"

definition search_user :: User where
  "search_user =
     \<lparr>user_id = 1, is_vip = False, is_admin = False,
      state = default_state
        \<lparr>use_pagination := True, flow_stack := [''main'', ''Catalog'', ''Search''],
         search_type := ''products''\<rparr>\<rparr>"

text \<open>The page of a state with cards is within range.\<close>

definition cards_ok :: "DBUserState \<Rightarrow> bool" where
  "cards_ok s = (truthy (cards_json s)
      \<longrightarrow> 0 \<le> cards_current_page s \<and> cards_current_page s < cards_total_length s)"

text \<open>
  A session: the root flow \<open>Catalog\<close>, the managed flow \<open>Search\<close> under it, and
  a free-text query answered with three product cards.
\<close>

definition catalog_handler :: ExtendedStaticHandler where
  "catalog_handler =
     \<lparr>self_content = ''Catalog'', self_current_flow = ''Catalog'', self_photo = None,
      self_is_nested = False, self_privileged = False, self_parent_name = ''main'',
      self_keyboard_vip = [], self_keyboard_all = []\<rparr>"

definition search_session :: "core_op list" where
  "search_session =
     [ExtendedStatic catalog_handler (text_update ''Catalog'') ok_client,
      Managed search_handler (text_update ''Search'') ok_client,
      Chat chat_handler three_cards_ai (text_update ''laptop'') ok_client]"

section \<open>Reference resolution: properties\<close>

lemma resolve_failure_propagates:
  "s \<in> set (string_values d) \<Longrightarrow> resolve_references (JStr s) c = Inl e
     \<Longrightarrow> \<exists>e'. resolve_references d c = Inl e'"
  "s \<in> set (string_values_list xs) \<Longrightarrow> resolve_references (JStr s) c = Inl e
     \<Longrightarrow> \<exists>e'. resolve_list xs c = Inl e'"
  "s \<in> set (string_values_items kvs) \<Longrightarrow> resolve_references (JStr s) c = Inl e
     \<Longrightarrow> \<exists>e'. resolve_items kvs c = Inl e'"
proof (induction d c and xs c and kvs c rule: resolve_references_resolve_list_resolve_items.induct)
  case (1 kvs ctx)
  then show ?case by (auto split: sum.splits)
next
  case (2 xs ctx)
  then show ?case by (auto split: sum.splits)
next
  case (8 x xs ctx)
  then show ?case by (cases "resolve_references x ctx") (auto split: sum.splits)
next
  case (10 k v kvs ctx)
  then show ?case by (cases "resolve_references v ctx") (auto split: sum.splits)
qed auto

lemma descend_append:
  "descend r (ks @ ks') = (case descend r ks of Inl e \<Rightarrow> Inl e | Inr d \<Rightarrow> descend d ks')"
  by (induction r ks rule: descend.induct) (auto split: json.splits option.splits)

lemma str_split_nonempty: "\<exists>key ks. str_split sep s = key # ks"
  by (induction s) (auto split: list.splits)

lemma descend_lookup_path:
  "descend r ks = (case lookup_path r ks of Some v \<Rightarrow> Inr v | None \<Rightarrow> Inl ValueError)"
  by (induction r ks rule: descend.induct) (auto split: json.splits option.splits)

lemma lookup_path_append:
  "lookup_path r (ks @ ks') = (case lookup_path r ks of None \<Rightarrow> None | Some d \<Rightarrow> lookup_path d ks')"
  by (induction r ks rule: lookup_path.induct) (auto split: option.splits)

lemma resolve_reference_path:
  "map_of cfg ''buttons'' = Some (JDict bs)
   \<Longrightarrow> resolve_references (JStr (CHR ''@'' # ref)) (JDict cfg)
       = (case lookup_path (JDict bs) (str_split (CHR ''.'') ref) of
            Some v \<Rightarrow> Inr v
          | None \<Rightarrow> Inl ValueError)"
proof -
  assume b: "map_of cfg ''buttons'' = Some (JDict bs)"
  obtain key ks where sp: "str_split (CHR ''.'') ref = key # ks"
    using str_split_nonempty by blast
  show ?thesis
    using b sp
    by (simp add: resolve_string_def lookup_base_def descend_lookup_path split: option.splits)
qed

text \<open>
  C8 (as amended). A reference is \<open>@<key>[.<subkey>...]\<close> with \<open>key\<close> an entry of the
  buttons section: \<open>@exit.content\<close> resolves to the content field of the entry
  \<open>exit\<close> under buttons. In general \<open>resolve_references\<close> returns what the dotted
  path names inside the buttons section, and raises ValueError when the key or any
  dotted subkey is absent: stated for the key, for a subkey absent from the record
  reached so far, and for a configuration with no buttons section. A document that
  holds a failing reference anywhere among its values fails to load.
\<close>

theorem resolve_references_buttons:
  "(map_of cfg ''buttons'' = Some (JDict bs) \<and> map_of bs ''exit'' = Some (JDict fs)
      \<and> map_of fs ''content'' = Some v
      \<longrightarrow> resolve_references (JStr ''@exit.content'') (JDict cfg) = Inr v)
   \<and> (map_of cfg ''buttons'' = Some (JDict bs)
      \<longrightarrow> resolve_references (JStr (CHR ''@'' # ref)) (JDict cfg)
          = (case lookup_path (JDict bs) (str_split (CHR ''.'') ref) of
               Some w \<Rightarrow> Inr w
             | None \<Rightarrow> Inl ValueError))
   \<and> (map_of cfg ''buttons'' = Some (JDict bs) \<and> map_of bs (hd (str_split (CHR ''.'') ref)) = None
      \<longrightarrow> resolve_references (JStr (CHR ''@'' # ref)) (JDict cfg) = Inl ValueError)
   \<and> (map_of cfg ''buttons'' = Some (JDict bs)
        \<and> str_split (CHR ''.'') ref = key # ks @ k # ks'
        \<and> lookup_path (JDict bs) (key # ks) = Some d
        \<and> (\<forall>kvs. d = JDict kvs \<longrightarrow> map_of kvs k = None)
      \<longrightarrow> resolve_references (JStr (CHR ''@'' # ref)) (JDict cfg) = Inl ValueError)
   \<and> (map_of cfg ''buttons'' = None
      \<longrightarrow> resolve_references (JStr (CHR ''@'' # ref)) (JDict cfg) = Inl ValueError)
   \<and> (descend r ks = Inr d \<and> (\<forall>kvs. d = JDict kvs \<longrightarrow> map_of kvs k = None)
      \<longrightarrow> descend r (ks @ k # ks') = Inl ValueError)
   \<and> (s \<in> set (string_values data) \<and> resolve_references (JStr s) data = Inl e
      \<longrightarrow> (\<exists>e'. load_json_with_references data = Inl e'))"
proof (intro conjI impI)
  assume "map_of cfg ''buttons'' = Some (JDict bs) \<and> map_of bs ''exit'' = Some (JDict fs)
      \<and> map_of fs ''content'' = Some v"
  then show "resolve_references (JStr ''@exit.content'') (JDict cfg) = Inr v"
    by (simp add: resolve_string_def lookup_base_def)
next
  assume "map_of cfg ''buttons'' = Some (JDict bs)"
  then show "resolve_references (JStr (CHR ''@'' # ref)) (JDict cfg)
          = (case lookup_path (JDict bs) (str_split (CHR ''.'') ref) of
               Some w \<Rightarrow> Inr w
             | None \<Rightarrow> Inl ValueError)"
    by (rule resolve_reference_path)
next
  assume "map_of cfg ''buttons'' = Some (JDict bs) \<and> map_of bs (hd (str_split (CHR ''.'') ref)) = None"
  then show "resolve_references (JStr (CHR ''@'' # ref)) (JDict cfg) = Inl ValueError"
    by (simp add: resolve_string_def lookup_base_def Let_def)
next
  assume a: "map_of cfg ''buttons'' = Some (JDict bs)
        \<and> str_split (CHR ''.'') ref = key # ks @ k # ks'
        \<and> lookup_path (JDict bs) (key # ks) = Some d
        \<and> (\<forall>kvs. d = JDict kvs \<longrightarrow> map_of kvs k = None)"
  then have dk: "lookup_path d (k # ks') = None"
    by (cases d) auto
  from a have b: "map_of cfg ''buttons'' = Some (JDict bs)"
    and sp: "str_split (CHR ''.'') ref = (key # ks) @ (k # ks')"
    and reached: "lookup_path (JDict bs) (key # ks) = Some d"
    by simp_all
  have "lookup_path (JDict bs) ((key # ks) @ (k # ks')) = None"
    by (simp only: lookup_path_append reached dk option.case)
  then have "lookup_path (JDict bs) (str_split (CHR ''.'') ref) = None"
    by (simp only: sp)
  with resolve_reference_path [OF b, of ref]
  show "resolve_references (JStr (CHR ''@'' # ref)) (JDict cfg) = Inl ValueError"
    by (simp only: option.case)
next
  assume "map_of cfg ''buttons'' = None"
  then show "resolve_references (JStr (CHR ''@'' # ref)) (JDict cfg) = Inl ValueError"
    by (simp add: resolve_string_def lookup_base_def Let_def)
next
  assume "descend r ks = Inr d \<and> (\<forall>kvs. d = JDict kvs \<longrightarrow> map_of kvs k = None)"
  then show "descend r (ks @ k # ks') = Inl ValueError"
    by (cases d) (auto simp: descend_append)
next
  assume "s \<in> set (string_values data) \<and> resolve_references (JStr s) data = Inl e"
  then show "\<exists>e'. load_json_with_references data = Inl e'"
    unfolding load_json_with_references_def
    using resolve_failure_propagates(1) by blast
qed

theorem resolve_references_buttons_witness:
  "resolve_references (JStr ''@exit.content'') example_config = Inr (JStr ''Bye'')
   \<and> resolve_references (JStr ''@exit.photo'') example_config = Inl ValueError
   \<and> resolve_references (JStr ''@next.content'') example_config = Inl ValueError
   \<and> resolve_references (JStr ''@exit.content.size'') example_config = Inl ValueError
   \<and> resolve_references (JStr ''@exit'') (JDict [(''flows'', JList [])]) = Inl ValueError
   \<and> descend (JDict [(''name'', JStr ''Back''), (''content'', JStr ''Bye'')]) [''photo'']
       = Inl ValueError
   \<and> (\<exists>e'. load_json_with_references bad_config = Inl e')"
  using resolve_references_buttons [where
      cfg = "[(''buttons'',
               JDict [(''exit'', JDict [(''name'', JStr ''Back''), (''content'', JStr ''Bye'')])]),
            (''callbacks'',
               JDict [(''exit'', JDict [(''content'', JStr ''@exit.content'')])])]"
      and bs = "[(''exit'', JDict [(''name'', JStr ''Back''), (''content'', JStr ''Bye'')])]"
      and fs = "[(''name'', JStr ''Back''), (''content'', JStr ''Bye'')]"
      and v = "JStr ''Bye''" and ref = "''exit.photo''"
      and key = "''exit''" and ks = "[]" and k = "''photo''" and ks' = "[]"
      and d = "JDict [(''name'', JStr ''Back''), (''content'', JStr ''Bye'')]"
      and r = "JDict [(''name'', JStr ''Back''), (''content'', JStr ''Bye'')]"
      and s = "''@next.content''" and data = bad_config and e = ValueError]
    resolve_references_buttons [where
      cfg = "[(''buttons'',
               JDict [(''exit'', JDict [(''name'', JStr ''Back''), (''content'', JStr ''Bye'')])]),
            (''callbacks'',
               JDict [(''exit'', JDict [(''content'', JStr ''@exit.content'')])])]"
      and bs = "[(''exit'', JDict [(''name'', JStr ''Back''), (''content'', JStr ''Bye'')])]"
      and ref = "''next.content''"]
    resolve_references_buttons [where
      cfg = "[(''buttons'',
               JDict [(''exit'', JDict [(''name'', JStr ''Back''), (''content'', JStr ''Bye'')])]),
            (''callbacks'',
               JDict [(''exit'', JDict [(''content'', JStr ''@exit.content'')])])]"
      and bs = "[(''exit'', JDict [(''name'', JStr ''Back''), (''content'', JStr ''Bye'')])]"
      and ref = "''exit.content.size''"
      and key = "''exit''" and ks = "[''content'']" and k = "''size''" and ks' = "[]"
      and d = "JStr ''Bye''"]
    resolve_references_buttons [where cfg = "[(''flows'', JList [])]" and ref = "''exit''"]
  by (simp add: example_config_def bad_config_def resolve_string_def lookup_base_def)

text \<open>
  C8 as stated fails: in a configuration whose buttons section has the entry
  \<open>exit\<close> with a content field, \<open>@buttons.exit.content\<close> looks for an entry
  named \<open>buttons\<close> inside the buttons section and raises ValueError.
\<close>

theorem resolve_buttons_prefix_counterexample:
  "lookup_base example_config ''exit''
     = Inr (JDict [(''name'', JStr ''Back''), (''content'', JStr ''Bye'')])
   \<and> resolve_references (JStr ''@buttons.exit.content'') example_config = Inl ValueError"
  by (simp add: example_config_def resolve_string_def lookup_base_def)

section \<open>Navigation: properties\<close>

lemma validate_flow_self:
  "flow_stack (state u) \<noteq> [] \<Longrightarrow> last (flow_stack (state u)) = self_current_flow h
     \<Longrightarrow> validate_flow c h u = Inr True"
  by (simp add: validate_flow_def)


lemma validate_flow_root:
  "flow_stack (state u) \<noteq> [] \<Longrightarrow> last (flow_stack (state u)) \<noteq> self_current_flow h
     \<Longrightarrow> \<not> self_is_nested h
     \<Longrightarrow> validate_flow c h u =
          (if last (flow_stack (state u)) = ''main'' then Inr True
           else (case errors_get c ''button_not_found'' of Inl e \<Rightarrow> Inl e | Inr x \<Rightarrow> Inr False))"
  by (simp add: validate_flow_def)

lemma validate_user_ok:
  "(self_privileged h \<longrightarrow> is_vip u) \<Longrightarrow> BaseHandler_validate_user c h (Some u) = Inr True"
  by (auto simp: BaseHandler_validate_user_def)

lemma middleware_returns: "middleware (returns r obj tr) = (r, tr)"
  by (simp add: middleware_def returns_def)

lemma middleware_raises: "middleware (raises e obj tr) = (obj, tr)"
  by (simp add: middleware_def raises_def)

lemmas mw = middleware_returns middleware_raises

lemma Managed_valid:
  "upd_message upd = Some m \<Longrightarrow> (self_privileged h \<longrightarrow> is_vip u) \<Longrightarrow> validate_flow c h u = Inr True
   \<Longrightarrow> ManagedHandler_call c h upd client (Some u)
       = (Some (u\<lparr>state := (state u)
                  \<lparr>search_type := self_search_type h,
                   flow_stack := flow_stack (state u) @ [self_current_flow h],
                   use_pagination := self_use_pagination h\<rparr>\<rparr>),
          snd (BaseResponse_send_message upd client (self_content h) (self_photo h) None None))"
  by (simp add: ManagedHandler_call_def ManagedHandler_body_def mw Let_def
        validate_user_ok split: prod.splits)


lemma ExtendedStatic_nested_valid:
  "upd_message upd = Some m \<Longrightarrow> (self_privileged h \<longrightarrow> is_vip u) \<Longrightarrow> self_is_nested h
   \<Longrightarrow> validate_flow c h u = Inr True
   \<Longrightarrow> ExtendedStaticHandler_call c h upd client (Some u)
       = (Some (u\<lparr>state := (state u)\<lparr>flow_stack := flow_stack (state u) @ [self_current_flow h]\<rparr>\<rparr>),
          snd (BaseResponse_send_message upd client (self_content h) (self_photo h) None
                 (Some (if is_vip u then self_keyboard_vip h else self_keyboard_all h))))"
  by (simp add: ExtendedStaticHandler_call_def ExtendedStaticHandler_body_def mw
        validate_user_ok Let_def split: prod.splits)


lemma ExtendedStatic_root:
  "upd_message upd = Some m \<Longrightarrow> (self_privileged h \<longrightarrow> is_vip u) \<Longrightarrow> \<not> self_is_nested h
   \<Longrightarrow> ExtendedStaticHandler_call c h upd client (Some u)
       = (Some (u\<lparr>state := (state u)\<lparr>flow_stack := [''main'', self_current_flow h]\<rparr>\<rparr>),
          snd (BaseResponse_send_message upd client (self_content h) (self_photo h) None
                 (Some (if is_vip u then self_keyboard_vip h else self_keyboard_all h))))"
  by (simp add: ExtendedStaticHandler_call_def ExtendedStaticHandler_body_def mw
        validate_user_ok Let_def validate_flow_def split: prod.splits)

lemma stack_ok_append: "stack_ok fs \<Longrightarrow> stack_ok (fs @ [f])"
  by (cases fs) (auto simp: stack_ok_def)

lemma stack_ok_butlast: "stack_ok fs \<Longrightarrow> length fs > 1 \<Longrightarrow> stack_ok (butlast fs)"
  by (cases fs) (auto simp: stack_ok_def)

lemma stack_ok_main: "stack_ok (''main'' # fs)"
  by (simp add: stack_ok_def)

lemma interpret_stack:
  "flow_stack (state (snd (ChatHandler_interpret c r u))) = flow_stack (state u)"
  by (auto simp: ChatHandler_interpret_def Let_def
      split: option.splits list.splits sum.splits answer_value.splits)

lemma remove_buttons_stack:
  "flow_stack (state (fst (BaseResponse_remove_callback_buttons client u chat))) = flow_stack (state u)"
  by (auto simp: BaseResponse_remove_callback_buttons_def Let_def)

lemma Start_stack:
  "fst (StartCommand_call self upd client (Some u)) = Some u' \<Longrightarrow> stack_ok (flow_stack (state u'))"
  by (auto simp: StartCommand_call_def StartCommand_body_def mw Let_def stack_ok_main split: prod.splits)

lemma Reset_stack:
  "fst (ResetCommand_call self upd client (Some u)) = Some u' \<Longrightarrow> stack_ok (flow_stack (state u'))"
  by (auto simp: ResetCommand_call_def ResetCommand_body_def mw Let_def stack_ok_main split: prod.splits)

lemma Static_stack:
  "fst (StaticHandler_call c self upd client (Some u)) = Some u' \<Longrightarrow> u' = u"
  by (auto simp: StaticHandler_call_def StaticHandler_body_def mw
      split: option.splits sum.splits prod.splits if_splits)

lemma ExtendedStatic_stack:
  "fst (ExtendedStaticHandler_call c self upd client (Some u)) = Some u'
     \<Longrightarrow> stack_ok (flow_stack (state u)) \<Longrightarrow> stack_ok (flow_stack (state u'))"
  by (auto simp: ExtendedStaticHandler_call_def ExtendedStaticHandler_body_def mw Let_def
        stack_ok_main stack_ok_append
      split: option.splits sum.splits prod.splits if_splits)

lemma Managed_stack:
  "fst (ManagedHandler_call c self upd client (Some u)) = Some u'
     \<Longrightarrow> stack_ok (flow_stack (state u)) \<Longrightarrow> stack_ok (flow_stack (state u'))"
  by (auto simp: ManagedHandler_call_def ManagedHandler_body_def mw Let_def
        stack_ok_append
      split: option.splits sum.splits prod.splits if_splits)

lemma Exit_result:
  "upd_callback_query upd = Some cq
   \<Longrightarrow> fst (ExitCallback_call c self upd client (Some u))
       = Some (u\<lparr>state := (state u)
                 \<lparr>flow_stack := (if length (flow_stack (state u)) > 1
                                  then butlast (flow_stack (state u))
                                  else flow_stack (state u)),
                  use_pagination := False, search_type := [], cards_json := None\<rparr>\<rparr>)"
  by (auto simp: ExitCallback_call_def ExitCallback_body_def mw
        BaseCallback_validate_user_def Let_def
      split: option.splits prod.splits)

lemma Exit_stack:
  "fst (ExitCallback_call c self upd client (Some u)) = Some u'
     \<Longrightarrow> stack_ok (flow_stack (state u)) \<Longrightarrow> stack_ok (flow_stack (state u'))"
proof (cases "upd_callback_query upd")
  case None
  assume "fst (ExitCallback_call c self upd client (Some u)) = Some u'"
    and "stack_ok (flow_stack (state u))"
  with None show ?thesis
    by (simp add: ExitCallback_call_def ExitCallback_body_def mw)
next
  case (Some cq)
  assume "fst (ExitCallback_call c self upd client (Some u)) = Some u'"
    and "stack_ok (flow_stack (state u))"
  with Exit_result [OF Some, of c self client u] show ?thesis
    by (auto simp: stack_ok_butlast)
qed

lemma Hide_stack:
  "fst (HideMessageCallback_call c upd client (Some u)) = Some u' \<Longrightarrow> u' = u"
  by (auto simp: HideMessageCallback_call_def HideMessageCallback_body_def mw Let_def
      split: option.splits sum.splits prod.splits if_splits)

lemma interpret_stackD:
  "ChatHandler_interpret c r u = (x, u2) \<Longrightarrow> flow_stack (state u2) = flow_stack (state u)"
  using interpret_stack [of c r u] by simp

lemma remove_buttons_stackD:
  "BaseResponse_remove_callback_buttons client u chat = (u3, tr)
     \<Longrightarrow> flow_stack (state u3) = flow_stack (state u)"
  using remove_buttons_stack [of client u chat] by simp

lemma deliver_user:
  "\<exists>u'. fst (middleware (ChatHandler_deliver self upd client m text0 u)) = Some u'
     \<and> flow_stack (state u') = flow_stack (state u)
     \<and> cards_json (state u') = cards_json (state u)
     \<and> cards_current_page (state u') = cards_current_page (state u)
     \<and> cards_total_length (state u') = cards_total_length (state u)
     \<and> use_pagination (state u') = use_pagination (state u)
     \<and> search_type (state u') = search_type (state u)"
  by (auto simp: ChatHandler_deliver_def mw Let_def BaseResponse_remove_callback_buttons_def
      split: option.splits prod.splits list.splits)

lemma deliver_userD:
  "fst (middleware (ChatHandler_deliver self upd client m text0 u)) = Some u'
   \<Longrightarrow> flow_stack (state u') = flow_stack (state u)
     \<and> cards_json (state u') = cards_json (state u)
     \<and> cards_current_page (state u') = cards_current_page (state u)
     \<and> cards_total_length (state u') = cards_total_length (state u)
     \<and> use_pagination (state u') = use_pagination (state u)
     \<and> search_type (state u') = search_type (state u)"
  using deliver_user [of self upd client m text0 u] by auto

lemma Chat_stack:
  "fst (ChatHandler_call c self ai upd client (Some u)) = Some u'
     \<Longrightarrow> stack_ok (flow_stack (state u)) \<Longrightarrow> stack_ok (flow_stack (state u'))"
  by (auto simp: ChatHandler_call_def ChatHandler_body_def mw Let_def stack_ok_append
      dest!: interpret_stackD deliver_userD
      split: option.splits sum.splits prod.splits if_splits)

lemma render_keeps_user:
  "fst (middleware (PaginationCallback_render c cq client u)) = Some u"
  by (auto simp: PaginationCallback_render_def mw Let_def
      split: sum.splits option.splits prod.splits list.splits)

lemma Pagination_stack:
  "fst (PaginationCallback_call c upd client (Some u)) = Some u'
     \<Longrightarrow> flow_stack (state u') = flow_stack (state u)"
  by (auto simp: PaginationCallback_call_def PaginationCallback_body_def mw Let_def
        render_keeps_user next_page_def previous_page_def
      split: option.splits sum.splits prod.splits if_splits list.splits)

lemma handle_stack:
  "fst (handle c op (Some u)) = Some u' \<Longrightarrow> stack_ok (flow_stack (state u))
     \<Longrightarrow> stack_ok (flow_stack (state u'))"
proof (cases op)
  case (Static h upd client)
  assume "fst (handle c op (Some u)) = Some u'" and "stack_ok (flow_stack (state u))"
  with Static show ?thesis using Static_stack by fastforce
next
  case (Hide upd client)
  assume "fst (handle c op (Some u)) = Some u'" and "stack_ok (flow_stack (state u))"
  with Hide show ?thesis using Hide_stack by fastforce
next
  case (Pagination upd client)
  assume "fst (handle c op (Some u)) = Some u'" and "stack_ok (flow_stack (state u))"
  with Pagination show ?thesis using Pagination_stack by fastforce
qed (auto dest: Start_stack Reset_stack ExtendedStatic_stack Managed_stack Chat_stack Exit_stack)

lemma process_update_stack:
  "stack_ok (flow_stack (state u)) \<Longrightarrow> stack_ok (flow_stack (state (process_update c u op)))"
  by (auto simp: process_update_def dest: handle_stack split: option.splits)

lemma process_updates_stack:
  "stack_ok (flow_stack (state u)) \<Longrightarrow> stack_ok (flow_stack (state (process_updates c u ops)))"
  unfolding process_updates_def
  by (induction ops arbitrary: u) (auto simp: process_update_stack)

text \<open>
  C1. Whatever updates a user goes through from the default state (\<open>/start\<close>,
  \<open>/reset\<close>, static, extended-static and managed flow entry, the free-text chat, the
  exit, hide and pagination callbacks, with any handler configuration, any update and
  any behaviour of the collaborators), the stored flow stack is non-empty and its first
  element is \<open>main\<close>.
\<close>

theorem flow_stack_bottom_main:
  "flow_stack (state (process_updates c (u\<lparr>state := default_state\<rparr>) ops)) \<noteq> []
   \<and> hd (flow_stack (state (process_updates c (u\<lparr>state := default_state\<rparr>) ops))) = ''main''"
  using process_updates_stack [of "u\<lparr>state := default_state\<rparr>" c ops]
  by (simp add: stack_ok_def default_state_def)

theorem flow_stack_bottom_main_witness:
  "flow_stack (state (process_updates example_common
       ((example_user [])\<lparr>state := default_state\<rparr>) search_session)) \<noteq> []
   \<and> hd (flow_stack (state (process_updates example_common
       ((example_user [])\<lparr>state := default_state\<rparr>) search_session))) = ''main''"
  by (rule flow_stack_bottom_main)

lemma send_trace:
  "upd_message upd = Some m \<Longrightarrow> chat_id m = Some chat \<Longrightarrow> chat \<noteq> 0
   \<Longrightarrow> snd (BaseResponse_send_message upd client content photo video reply_markup)
       = [send_call chat (format_message_for_max content) photo video reply_markup]"
  by (simp add: BaseResponse_send_message_def update_chat_id_def Let_def)

lemma process_update_Managed:
  "process_update c u (Managed h upd client)
     = (case fst (ManagedHandler_call c h upd client (Some u)) of
          None \<Rightarrow> u | Some v \<Rightarrow> u\<lparr>state := state v\<rparr>)"
  by (simp add: process_update_def)

lemma process_update_ExtendedStatic:
  "process_update c u (ExtendedStatic h upd client)
     = (case fst (ExtendedStaticHandler_call c h upd client (Some u)) of
          None \<Rightarrow> u | Some v \<Rightarrow> u\<lparr>state := state v\<rparr>)"
  by (simp add: process_update_def)

text \<open>
  Entering the flow that is already on top of the stack: the transition check accepts
  it, and the handler then appends the flow as on any accepted entry. A managed or
  nested extended-static handler leaves the stack one element longer; a root
  extended-static handler, which resets the stack first, leaves \<open>[main, target]\<close>.
\<close>

theorem self_reentry_accepted_and_pushed:
  "(upd_message upd = Some m \<and> flow_stack (state u) \<noteq> []
      \<and> last (flow_stack (state u)) = self_current_flow hm \<and> (self_privileged hm \<longrightarrow> is_vip u)
    \<longrightarrow> validate_flow c hm u = Inr True
        \<and> flow_stack (state (process_update c u (Managed hm upd client)))
            = flow_stack (state u) @ [self_current_flow hm])
   \<and> (upd_message upd = Some m \<and> flow_stack (state v) \<noteq> []
      \<and> last (flow_stack (state v)) = self_current_flow he \<and> (self_privileged he \<longrightarrow> is_vip v)
    \<longrightarrow> validate_flow c he v = Inr True
        \<and> flow_stack (state (process_update c v (ExtendedStatic he upd client)))
            = (if self_is_nested he then flow_stack (state v) @ [self_current_flow he]
               else [''main'', self_current_flow he]))"
proof (intro conjI impI)
  assume a: "upd_message upd = Some m \<and> flow_stack (state u) \<noteq> []
      \<and> last (flow_stack (state u)) = self_current_flow hm \<and> (self_privileged hm \<longrightarrow> is_vip u)"
  then show vm: "validate_flow c hm u = Inr True"
    by (simp add: validate_flow_self)
  with a show "flow_stack (state (process_update c u (Managed hm upd client)))
           = flow_stack (state u) @ [self_current_flow hm]"
    by (simp add: process_update_Managed Managed_valid)
next
  assume a: "upd_message upd = Some m \<and> flow_stack (state v) \<noteq> []
      \<and> last (flow_stack (state v)) = self_current_flow he \<and> (self_privileged he \<longrightarrow> is_vip v)"
  then show ve: "validate_flow c he v = Inr True"
    by (simp add: validate_flow_self)
  show "flow_stack (state (process_update c v (ExtendedStatic he upd client)))
           = (if self_is_nested he then flow_stack (state v) @ [self_current_flow he]
              else [''main'', self_current_flow he])"
  proof (cases "self_is_nested he")
    case True
    with a ve show ?thesis
      by (simp add: process_update_ExtendedStatic ExtendedStatic_nested_valid)
  next
    case False
    with a show ?thesis
      by (simp add: process_update_ExtendedStatic ExtendedStatic_root)
  qed
qed

lemmas example_defs = example_common_def about_handler_def services_handler_def
  search_handler_def example_user_def text_update_def ok_client_def default_state_def

theorem self_reentry_accepted_and_pushed_witness:
  "validate_flow example_common search_handler (example_user [''main'', ''Catalog'', ''Search'']) = Inr True
   \<and> flow_stack (state (process_update example_common (example_user [''main'', ''Catalog'', ''Search''])
          (Managed search_handler (text_update ''Search'') ok_client)))
       = [''main'', ''Catalog'', ''Search'', ''Search'']
   \<and> validate_flow example_common services_handler (example_user [''main'', ''Catalog'', ''Services''])
       = Inr True
   \<and> flow_stack (state (process_update example_common (example_user [''main'', ''Catalog'', ''Services''])
          (ExtendedStatic services_handler (text_update ''Services'') ok_client)))
       = [''main'', ''Catalog'', ''Services'', ''Services'']"
  using self_reentry_accepted_and_pushed [of "text_update ''Search''"
      "\<lparr>msg_text = Some ''Search'', chat_id = Some 7, message_id = ''m1''\<rparr>"
      "example_user [''main'', ''Catalog'', ''Search'']" search_handler example_common ok_client
      "example_user [''main'', ''Catalog'', ''Services'']" services_handler]
    self_reentry_accepted_and_pushed [of "text_update ''Services''"
      "\<lparr>msg_text = Some ''Services'', chat_id = Some 7, message_id = ''m1''\<rparr>"
      "example_user [''main'', ''Catalog'', ''Search'']" search_handler example_common ok_client
      "example_user [''main'', ''Catalog'', ''Services'']" services_handler]
  by (simp add: example_defs)

text \<open>
  C2. The code at a repeated press. A user at \<open>[main, Catalog, Search]\<close> presses
  \<open>Search\<close> again: the transition check accepts the press as a repeat, and the managed
  handler appends the name once more, so the stack has four elements. Back then pops
  only the duplicate: the user is still in \<open>Search\<close>, and no message is sent, since
  there is no keyboard for \<open>Search\<close>. The same repeat on a root flow leaves the stack
  as it was: \<open>Catalog\<close> pressed at \<open>[main, Catalog]\<close> gives \<open>[main, Catalog]\<close>.
\<close>

theorem self_reentry_duplicate_push:
  "validate_flow example_common search_handler (example_user [''main'', ''Catalog'', ''Search''])
     = Inr True
   \<and> ManagedHandler_call example_common search_handler (text_update ''Search'') ok_client
        (Some (example_user [''main'', ''Catalog'', ''Search'']))
     = (Some ((example_user [''main'', ''Catalog'', ''Search'', ''Search''])
              \<lparr>state := (state (example_user [''main'', ''Catalog'', ''Search'', ''Search'']))
                 \<lparr>search_type := ''products'', use_pagination := True\<rparr>\<rparr>),
        [send_message 7 ''What are you looking for?'' None])
   \<and> ExitCallback_call example_common exit_callback (callback_update ''exit_callback'') ok_client
        (Some ((example_user [''main'', ''Catalog'', ''Search'', ''Search''])
              \<lparr>state := (state (example_user [''main'', ''Catalog'', ''Search'', ''Search'']))
                 \<lparr>search_type := ''products'', use_pagination := True\<rparr>\<rparr>))
     = (Some (example_user [''main'', ''Catalog'', ''Search'']), [])
   \<and> ExtendedStaticHandler_call example_common catalog_handler (text_update ''Catalog'') ok_client
        (Some (example_user [''main'', ''Catalog'']))
     = (Some (example_user [''main'', ''Catalog'']), [send_message 7 ''Catalog'' (Some [])])"
  by (simp add: example_defs catalog_handler_def exit_callback_def callback_update_def
        validate_flow_def ManagedHandler_call_def ManagedHandler_body_def
        ExtendedStaticHandler_call_def ExtendedStaticHandler_body_def
        ExitCallback_call_def ExitCallback_body_def
        BaseHandler_validate_user_def BaseCallback_validate_user_def mw Let_def
        BaseResponse_send_message_def update_chat_id_def send_call_def
        format_message_for_max_def EMPTY_STR_def)

text \<open>
  C3 (as amended). The extended-static handler of a root (non-nested) flow resets the
  stack to \<open>[main]\<close> before the transition check, so for a registered and
  sufficiently privileged user the entry succeeds from any stack, the resulting stack is
  \<open>[main, target]\<close> and the flow's message is sent. The transition check by itself
  accepts a non-nested target other than the current top iff the current top is
  \<open>main\<close>.
\<close>

theorem root_entry_resets_stack:
  "(upd_message upd = Some m \<and> chat_id m = Some chat \<and> chat \<noteq> 0
      \<and> \<not> self_is_nested he \<and> (self_privileged he \<longrightarrow> is_vip u)
    \<longrightarrow> ExtendedStaticHandler_call c he upd client (Some u)
        = (Some (u\<lparr>state := (state u)\<lparr>flow_stack := [''main'', self_current_flow he]\<rparr>\<rparr>),
           [send_call chat (format_message_for_max (self_content he)) (self_photo he) None
              (Some (if is_vip u then self_keyboard_vip he else self_keyboard_all he))]))
   \<and> (flow_stack (state v) \<noteq> [] \<and> last (flow_stack (state v)) \<noteq> self_current_flow h
      \<and> \<not> self_is_nested h
    \<longrightarrow> (validate_flow c h v = Inr True) = (last (flow_stack (state v)) = ''main''))"
proof (intro conjI impI)
  assume "upd_message upd = Some m \<and> chat_id m = Some chat \<and> chat \<noteq> 0
      \<and> \<not> self_is_nested he \<and> (self_privileged he \<longrightarrow> is_vip u)"
  then show "ExtendedStaticHandler_call c he upd client (Some u)
        = (Some (u\<lparr>state := (state u)\<lparr>flow_stack := [''main'', self_current_flow he]\<rparr>\<rparr>),
           [send_call chat (format_message_for_max (self_content he)) (self_photo he) None
              (Some (if is_vip u then self_keyboard_vip he else self_keyboard_all he))])"
    by (simp add: ExtendedStatic_root send_trace)
next
  assume "flow_stack (state v) \<noteq> [] \<and> last (flow_stack (state v)) \<noteq> self_current_flow h
      \<and> \<not> self_is_nested h"
  then show "(validate_flow c h v = Inr True) = (last (flow_stack (state v)) = ''main'')"
    by (auto simp: validate_flow_root split: sum.splits)
qed

theorem root_entry_resets_stack_witness:
  "ExtendedStaticHandler_call example_common about_handler (text_update ''About'') ok_client
       (Some (example_user [''main'', ''Catalog'', ''Services'']))
     = (Some (example_user [''main'', ''About'']), [send_message 7 ''About us'' (Some [])])
   \<and> validate_flow example_common about_handler (example_user [''main'']) = Inr True
   \<and> validate_flow example_common about_handler (example_user [''main'', ''Catalog'']) \<noteq> Inr True"
  using root_entry_resets_stack [of "text_update ''About''"
      "\<lparr>msg_text = Some ''About'', chat_id = Some 7, message_id = ''m1''\<rparr>" 7
      about_handler "example_user [''main'', ''Catalog'', ''Services'']" example_common ok_client
      "example_user [''main'']" about_handler]
    root_entry_resets_stack [of "text_update ''About''"
      "\<lparr>msg_text = Some ''About'', chat_id = Some 7, message_id = ''m1''\<rparr>" 7
      about_handler "example_user [''main'', ''Catalog'', ''Services'']" example_common ok_client
      "example_user [''main'', ''Catalog'']" about_handler]
  by (simp add: example_defs send_call_def format_message_for_max_def)

text \<open>
  C3 as stated fails: a user at \<open>[main, Catalog]\<close>, whose top is not \<open>main\<close>,
  enters the root flow \<open>About\<close>.
\<close>

theorem root_entry_from_nested_counterexample:
  "last (flow_stack (state (example_user [''main'', ''Catalog'']))) \<noteq> ''main''
   \<and> ExtendedStaticHandler_call example_common about_handler (text_update ''About'') ok_client
       (Some (example_user [''main'', ''Catalog'']))
     = (Some (example_user [''main'', ''About'']), [send_message 7 ''About us'' (Some [])])"
  by (simp add: example_defs ExtendedStatic_root send_trace send_call_def format_message_for_max_def)




section \<open>Exit, static flows, deduplication: properties\<close>

text \<open>
  C5. The exit callback, for a registered user: the stack loses exactly its last element
  when it has more than one, and is unchanged when it has one; in both cases
  \<open>use_pagination\<close> becomes false, \<open>search_type\<close> the empty string and
  \<open>cards_json\<close> None. Every other field of the user is as before.
\<close>

theorem ExitCallback_pops_one_level:
  "upd_callback_query upd = Some cq
   \<longrightarrow> fst (ExitCallback_call c self upd client (Some u))
       = Some (u\<lparr>state := (state u)
                 \<lparr>flow_stack := (if length (flow_stack (state u)) > 1
                                  then butlast (flow_stack (state u))
                                  else flow_stack (state u)),
                  use_pagination := False, search_type := [], cards_json := None\<rparr>\<rparr>)"
  using Exit_result by blast

theorem ExitCallback_pops_one_level_witness:
  "flow_stack (state (process_update example_common (cards_user 1)
       (Exit exit_callback (callback_update ''exit_callback'') ok_client)))
     = [''main'', ''Catalog'']
   \<and> \<not> use_pagination (state (process_update example_common (cards_user 1)
       (Exit exit_callback (callback_update ''exit_callback'') ok_client)))
   \<and> search_type (state (process_update example_common (cards_user 1)
       (Exit exit_callback (callback_update ''exit_callback'') ok_client))) = []
   \<and> cards_json (state (process_update example_common (cards_user 1)
       (Exit exit_callback (callback_update ''exit_callback'') ok_client))) = None
   \<and> flow_stack (state (process_update example_common (example_user [''main''])
       (Exit exit_callback (callback_update ''exit_callback'') ok_client)))
     = [''main'']
   \<and> flow_stack (state (process_update example_common (example_user [''main'', ''a'', ''b''])
       (Exit exit_callback (callback_update ''exit_callback'') ok_client)))
     = [''main'', ''a'']"
  using ExitCallback_pops_one_level [of "callback_update ''exit_callback''"
      "\<lparr>cq_data = Some ''exit_callback'',
        cq_message = Some \<lparr>msg_text = None, chat_id = Some 7, message_id = ''m1''\<rparr>,
        cq_id = None\<rparr>" example_common exit_callback ok_client "cards_user 1"]
    ExitCallback_pops_one_level [of "callback_update ''exit_callback''"
      "\<lparr>cq_data = Some ''exit_callback'',
        cq_message = Some \<lparr>msg_text = None, chat_id = Some 7, message_id = ''m1''\<rparr>,
        cq_id = None\<rparr>" example_common exit_callback ok_client "example_user [''main'']"]
    ExitCallback_pops_one_level [of "callback_update ''exit_callback''"
      "\<lparr>cq_data = Some ''exit_callback'',
        cq_message = Some \<lparr>msg_text = None, chat_id = Some 7, message_id = ''m1''\<rparr>,
        cq_id = None\<rparr>" example_common exit_callback ok_client
      "example_user [''main'', ''a'', ''b'']"]
  by (simp add: process_update_def callback_update_def cards_user_def example_user_def)

text \<open>
  C10. A static handler, on a message of a registered user who is a VIP if the flow is
  privileged, returns the user it was given, state included, and its only call on the
  client is the one that sends the flow's content (none when the update has no chat id).
\<close>

theorem StaticHandler_leaves_state:
  "upd_message upd = Some m \<and> (self_privileged self \<longrightarrow> is_vip u)
   \<longrightarrow> StaticHandler_call c self upd client (Some u)
       = (Some u,
          (case chat_id m of
             None \<Rightarrow> []
           | Some chat \<Rightarrow>
               if chat = 0 then []
               else [send_call chat (format_message_for_max (self_content self))
                       (self_photo self) None (self_inline_markup self)]))"
  by (auto simp: StaticHandler_call_def StaticHandler_body_def mw validate_user_ok
        BaseResponse_send_message_def update_chat_id_def Let_def
      split: option.splits)

theorem StaticHandler_leaves_state_witness:
  "StaticHandler_call example_common info_handler (text_update ''Info'') ok_client
       (Some (cards_user 1))
     = (Some (cards_user 1), [send_message 7 ''Opening hours'' None])"
  using StaticHandler_leaves_state [of "text_update ''Info''"
      "\<lparr>msg_text = Some ''Info'', chat_id = Some 7, message_id = ''m1''\<rparr>"
      info_handler "cards_user 1" example_common ok_client]
  by (simp add: text_update_def info_handler_def send_call_def format_message_for_max_def)

lemma record_and_prune_key:
  "record_and_prune cache key t key = Some t"
  by (simp add: record_and_prune_def)

lemma record_and_prune_bound:
  "record_and_prune cache key t k = Some ts \<Longrightarrow> t - ts \<le> 10000"
  by (auto simp: record_and_prune_def split: option.splits if_splits)

lemma deduplicate_keyed:
  "cb_user_id ev = Some uid \<Longrightarrow> uid \<noteq> 0 \<Longrightarrow> cb_payload ev = Some payload \<Longrightarrow> payload \<noteq> []
   \<Longrightarrow> cb_timestamp ev = Some t
   \<Longrightarrow> deduplicate cache ev
       = (case cache (dedup_key uid payload) of
            None \<Rightarrow> (False, record_and_prune cache (dedup_key uid payload) t)
          | Some t0 \<Rightarrow>
              if t - t0 < 2000 then (True, cache)
              else (False, record_and_prune cache (dedup_key uid payload) t))"
  by (cases payload)
     (simp_all add: deduplicate_def Let_def deduplication_window_ms_def split: option.splits)

lemma process_callback_keyed:
  "cb_user_id ev = Some uid \<Longrightarrow> uid \<noteq> 0 \<Longrightarrow> cb_payload ev = Some payload \<Longrightarrow> payload \<noteq> []
   \<Longrightarrow> cb_timestamp ev = Some t
   \<Longrightarrow> process_callback chs hs cache ev
       = (case cache (dedup_key uid payload) of
            None \<Rightarrow> (route chs hs ev payload, record_and_prune cache (dedup_key uid payload) t)
          | Some t0 \<Rightarrow>
              if t - t0 < 2000 then (Duplicate, cache)
              else (route chs hs ev payload, record_and_prune cache (dedup_key uid payload) t))"
  by (simp add: process_callback_def deduplicate_keyed split: option.splits)

lemma route_not_Duplicate: "route chs hs ev payload \<noteq> Duplicate"
  by (simp add: route_def split: option.splits)

text \<open>
  C7 (as amended). Deduplication of callback events by \<open>(user id, payload)\<close>. An
  event with timestamp \<open>t\<close> whose key has the entry \<open>told\<close> in the cache is dropped iff
  \<open>t - told < 2000\<close>: it reaches no handler and leaves the cache as it was. Otherwise,
  and when the key has no entry, it is processed: it goes on to the handler lookup (a
  registered handler is invoked when the event has a chat id) and the cache records
  \<open>t\<close> for the key. After the insert no entry is more than 10000 ms older than \<open>t\<close>,
  the event's own timestamp, and the entries of other keys within that age are kept.
  So of two consecutive events with the same key, the first of them processed, the
  second is dropped iff \<open>tnew - told < 2000\<close>. An event without user id is never dropped
  and leaves the cache untouched; so does an event without payload, which ends before
  any handler.
\<close>

theorem deduplicate_window:
  "(cb_user_id ev = Some uid \<and> uid \<noteq> 0 \<and> cb_payload ev = Some payload \<and> payload \<noteq> []
      \<and> cb_timestamp ev = Some t \<and> cache (dedup_key uid payload) = Some told
    \<longrightarrow> process_callback chs hs cache ev
        = (if t - told < 2000 then (Duplicate, cache)
           else (route chs hs ev payload, record_and_prune cache (dedup_key uid payload) t)))
   \<and> (cb_user_id ev = Some uid \<and> uid \<noteq> 0 \<and> cb_payload ev = Some payload \<and> payload \<noteq> []
      \<and> cb_timestamp ev = Some t \<and> cache (dedup_key uid payload) = None
    \<longrightarrow> process_callback chs hs cache ev
        = (route chs hs ev payload, record_and_prune cache (dedup_key uid payload) t))
   \<and> route chs hs ev payload \<noteq> Duplicate
   \<and> (payload \<noteq> [] \<and> cb_chat_id ev = Some chat \<and> chat \<noteq> 0 \<and> chs payload = Some h
    \<longrightarrow> route chs hs ev payload = Invoked h)
   \<and> record_and_prune cache key t key = Some t
   \<and> (\<forall>k ts. record_and_prune cache key t k = Some ts \<longrightarrow> t - ts \<le> 10000)
   \<and> (\<forall>k ts. k \<noteq> key \<and> cache k = Some ts
        \<longrightarrow> record_and_prune cache key t k = (if t - ts > 10000 then None else Some ts))
   \<and> (cb_user_id first = Some uid \<and> uid \<noteq> 0 \<and> cb_payload first = Some payload \<and> payload \<noteq> []
      \<and> cb_user_id second = Some uid \<and> cb_payload second = Some payload
      \<and> cb_timestamp first = Some told \<and> cb_timestamp second = Some tnew
      \<and> process_callback chs hs cache first = (d, later) \<and> d \<noteq> Duplicate
    \<longrightarrow> later (dedup_key uid payload) = Some told
        \<and> (fst (process_callback chs hs later second) = Duplicate \<longleftrightarrow> tnew - told < 2000)
        \<and> process_callback chs hs later second
            = (if tnew - told < 2000 then (Duplicate, later)
               else (route chs hs second payload,
                     record_and_prune later (dedup_key uid payload) tnew)))
   \<and> ((cb_user_id e = None \<or> cb_user_id e = Some 0) \<and> cb_payload e = Some p
    \<longrightarrow> deduplicate cache e = (False, cache)
        \<and> process_callback chs hs cache e = (route chs hs e p, cache))
   \<and> (cb_payload e = None
    \<longrightarrow> deduplicate cache e = (False, cache)
        \<and> process_callback chs hs cache e = (Crashed TypeError, cache))
   \<and> (cb_payload e = Some []
    \<longrightarrow> deduplicate cache e = (False, cache)
        \<and> process_callback chs hs cache e = (No_payload, cache))"
proof (intro conjI impI allI)
  assume "cb_user_id ev = Some uid \<and> uid \<noteq> 0 \<and> cb_payload ev = Some payload \<and> payload \<noteq> []
      \<and> cb_timestamp ev = Some t \<and> cache (dedup_key uid payload) = Some told"
  then show "process_callback chs hs cache ev
        = (if t - told < 2000 then (Duplicate, cache)
           else (route chs hs ev payload, record_and_prune cache (dedup_key uid payload) t))"
    by (simp add: process_callback_keyed)
next
  assume "cb_user_id ev = Some uid \<and> uid \<noteq> 0 \<and> cb_payload ev = Some payload \<and> payload \<noteq> []
      \<and> cb_timestamp ev = Some t \<and> cache (dedup_key uid payload) = None"
  then show "process_callback chs hs cache ev
        = (route chs hs ev payload, record_and_prune cache (dedup_key uid payload) t)"
    by (simp add: process_callback_keyed)
next
  show "route chs hs ev payload \<noteq> Duplicate"
    by (rule route_not_Duplicate)
next
  assume "payload \<noteq> [] \<and> cb_chat_id ev = Some chat \<and> chat \<noteq> 0 \<and> chs payload = Some h"
  then show "route chs hs ev payload = Invoked h"
    by (simp add: route_def)
next
  show "record_and_prune cache key t key = Some t"
    by (rule record_and_prune_key)
next
  fix k ts
  assume "record_and_prune cache key t k = Some ts"
  then show "t - ts \<le> 10000"
    by (rule record_and_prune_bound)
next
  fix k ts
  assume "k \<noteq> key \<and> cache k = Some ts"
  then show "record_and_prune cache key t k = (if t - ts > 10000 then None else Some ts)"
    by (simp add: record_and_prune_def)
next
  assume a: "cb_user_id first = Some uid \<and> uid \<noteq> 0 \<and> cb_payload first = Some payload \<and> payload \<noteq> []
      \<and> cb_user_id second = Some uid \<and> cb_payload second = Some payload
      \<and> cb_timestamp first = Some told \<and> cb_timestamp second = Some tnew
      \<and> process_callback chs hs cache first = (d, later) \<and> d \<noteq> Duplicate"
  then have "later = record_and_prune cache (dedup_key uid payload) told"
    using process_callback_keyed [of first uid payload told chs hs cache]
    by (auto split: option.splits if_splits)
  then show k: "later (dedup_key uid payload) = Some told"
    by (simp add: record_and_prune_key)
  with a show eq: "process_callback chs hs later second
            = (if tnew - told < 2000 then (Duplicate, later)
               else (route chs hs second payload,
                     record_and_prune later (dedup_key uid payload) tnew))"
    by (simp add: process_callback_keyed)
  show "fst (process_callback chs hs later second) = Duplicate \<longleftrightarrow> tnew - told < 2000"
    by (simp add: eq route_not_Duplicate)
next
  assume b: "(cb_user_id e = None \<or> cb_user_id e = Some 0) \<and> cb_payload e = Some p"
  then show d: "deduplicate cache e = (False, cache)"
    by (auto simp: deduplicate_def Let_def split: option.splits list.splits)
  with b show "process_callback chs hs cache e = (route chs hs e p, cache)"
    by (simp add: process_callback_def)
next
  assume b: "cb_payload e = None"
  then show "deduplicate cache e = (False, cache)"
    by (auto simp: deduplicate_def Let_def split: option.splits list.splits)
  from b show "process_callback chs hs cache e = (Crashed TypeError, cache)"
    by (simp add: process_callback_def)
next
  assume b: "cb_payload e = Some []"
  then show d: "deduplicate cache e = (False, cache)"
    by (auto simp: deduplicate_def Let_def split: option.splits list.splits)
  with b show "process_callback chs hs cache e = (No_payload, cache)"
    by (simp add: process_callback_def route_def)
qed

theorem deduplicate_window_witness:
  "process_callback callback_table Map.empty Map.empty (press 1000)
     = (Invoked ''PaginationCallback'',
        record_and_prune Map.empty (dedup_key 5 ''next_callback'') 1000)
   \<and> process_callback callback_table Map.empty
        (record_and_prune Map.empty (dedup_key 5 ''next_callback'') 1000) (press 2999)
     = (Duplicate, record_and_prune Map.empty (dedup_key 5 ''next_callback'') 1000)
   \<and> process_callback callback_table Map.empty
        (record_and_prune Map.empty (dedup_key 5 ''next_callback'') 1000) (press 3000)
     = (Invoked ''PaginationCallback'',
        record_and_prune (record_and_prune Map.empty (dedup_key 5 ''next_callback'') 1000)
          (dedup_key 5 ''next_callback'') 3000)
   \<and> process_callback callback_table Map.empty
        (record_and_prune Map.empty (dedup_key 5 ''next_callback'') 1000)
        ((press 1500)\<lparr>cb_user_id := None\<rparr>)
     = (Invoked ''PaginationCallback'',
        record_and_prune Map.empty (dedup_key 5 ''next_callback'') 1000)
   \<and> process_callback callback_table Map.empty
        (record_and_prune Map.empty (dedup_key 5 ''next_callback'') 1000)
        ((press 1500)\<lparr>cb_payload := None\<rparr>)
     = (Crashed TypeError, record_and_prune Map.empty (dedup_key 5 ''next_callback'') 1000)"
  using deduplicate_window [where chs = callback_table and hs = Map.empty and chat = 7
      and h = "''PaginationCallback''" and uid = 5 and payload = "''next_callback''"
      and key = "dedup_key 5 ''next_callback''"
      and ev = "press 1000" and t = 1000 and cache = Map.empty and told = 1000
      and first = "press 1000" and second = "press 2999" and tnew = 2999
      and d = "Invoked ''PaginationCallback''"
      and later = "record_and_prune Map.empty (dedup_key 5 ''next_callback'') 1000"
      and e = "(press 1500)\<lparr>cb_user_id := None\<rparr>" and p = "''next_callback''"]
    deduplicate_window [where chs = callback_table and hs = Map.empty and chat = 7
      and h = "''PaginationCallback''" and uid = 5 and payload = "''next_callback''"
      and key = "dedup_key 5 ''next_callback''"
      and ev = "press 3000" and t = 3000 and told = 1000
      and cache = "record_and_prune Map.empty (dedup_key 5 ''next_callback'') 1000"
      and first = "press 1000" and second = "press 3000" and tnew = 3000
      and d = "Invoked ''PaginationCallback''"
      and later = "record_and_prune Map.empty (dedup_key 5 ''next_callback'') 1000"
      and e = "(press 1500)\<lparr>cb_user_id := None\<rparr>" and p = "''next_callback''"]
    deduplicate_window [where chs = callback_table and hs = Map.empty and chat = 7
      and h = "''PaginationCallback''" and uid = 5 and payload = "''next_callback''"
      and key = "dedup_key 5 ''next_callback''"
      and ev = "press 3000" and t = 3000 and told = 1000
      and cache = "record_and_prune Map.empty (dedup_key 5 ''next_callback'') 1000"
      and first = "press 1000" and second = "press 3000" and tnew = 3000
      and d = "Invoked ''PaginationCallback''"
      and later = "record_and_prune Map.empty (dedup_key 5 ''next_callback'') 1000"
      and e = "(press 1500)\<lparr>cb_payload := None\<rparr>" and p = "''next_callback''"]
  by (simp add: press_def callback_table_def record_and_prune_key route_def)

text \<open>
  C7 as stated fails for two events of which the first was itself dropped: of three
  presses of the same button by the same user at 0, 1500 and 3000 ms the second is
  dropped and the third is processed, although it comes 1500 ms after the second.
\<close>

theorem deduplicate_after_dropped_counterexample:
  "process_callbacks callback_table Map.empty Map.empty [press 0, press 1500, press 3000]
     = [Invoked ''PaginationCallback'', Duplicate, Invoked ''PaginationCallback'']
   \<and> (3000 :: int) - 1500 < 2000"
  by (simp add: process_callback_keyed [of _ 5 "''next_callback''"] press_def
        record_and_prune_key route_def callback_table_def)

section \<open>Chat and search: properties\<close>

lemma str_nat_digit: "n < 10 \<Longrightarrow> str_nat n = [digit_char n]"
  by (subst str_nat.simps) simp

lemma str_int_1: "str_int 1 = ''1''"
  by (simp add: str_int_def digit_char_def str_nat_digit)

lemma str_int_3: "str_int 3 = ''3''"
  by (simp add: str_int_def digit_char_def str_nat_digit)

lemma join_head: "\<exists>t. join sep (h # ls) = h @ t"
  by (cases ls) auto

lemma card_text_header: "\<exists>t. card_from_json crd 0 2 = card_header 0 2 @ t"
  unfolding card_from_json_def by (simp only: append_Cons append_Nil join_head)

lemma card_header_0_2:
  "card_header 0 2 = lit_page @ header_1_of_3 @ nl"
  by (simp add: card_header_def header_1_of_3_def str_int_1 str_int_3)

lemma header_in_card: "sublist header_1_of_3 (card_from_json crd 0 2)"
proof -
  obtain t where "card_from_json crd 0 2 = card_header 0 2 @ t"
    using card_text_header by blast
  then have "card_from_json crd 0 2 = lit_page @ header_1_of_3 @ (nl @ t)"
    by (simp add: card_header_0_2)
  then show ?thesis
    unfolding sublist_def by blast
qed

lemma unescape_prefix:
  "CHR 0x5C \<notin> set xs \<Longrightarrow> unescape c (xs @ ys) = xs @ unescape c ys"
proof (induction xs)
  case Nil
  then show ?case by simp
next
  case (Cons x xs)
  then show ?case by (cases "xs @ ys") auto
qed

lemma header_no_backslash: "CHR 0x5C \<notin> set (card_header 0 2)"
  by (simp add: card_header_0_2 header_1_of_3_def lit_page_def lit_result_def lit_of_def nl_def)

lemma header_in_formatted_card:
  "sublist header_1_of_3 (format_message_for_max (card_from_json crd 0 2))"
proof -
  obtain t where t: "card_from_json crd 0 2 = card_header 0 2 @ t"
    using card_text_header by blast
  have "format_message_for_max (card_from_json crd 0 2)
      = card_header 0 2 @ unescape (CHR ''_'') (unescape (CHR ''*'') t)"
    unfolding format_message_for_max_def t
    by (simp only: unescape_prefix [OF header_no_backslash])
  then have "format_message_for_max (card_from_json crd 0 2)
      = lit_page @ header_1_of_3 @ (nl @ unescape (CHR ''_'') (unescape (CHR ''*'') t))"
    by (simp only: card_header_0_2 append_assoc)
  then show ?thesis
    unfolding sublist_def by blast
qed

lemma interpret_product_cards:
  "use_pagination (state u) \<Longrightarrow> cards r = None \<Longrightarrow> product_cards r = Some (c1 # cs)
   \<Longrightarrow> ChatHandler_interpret c r u
       = (Inr (card_from_json c1 0 (int (length (c1 # cs)) - 1)),
          u\<lparr>state := (state u)
             \<lparr>cards_json := Some (c1 # cs), cards_current_page := 0,
              cards_total_length := int (length (c1 # cs))\<rparr>\<rparr>)"
  by (simp add: ChatHandler_interpret_def Let_def)

lemma Chat_product_cards:
  assumes "upd_message upd = Some m"
    and "flow_stack (state u) \<noteq> []"
    and "last (flow_stack (state u)) \<in> managed_flows c"
    and "use_pagination (state u)"
    and "ai (ChatHandler_payload u (case msg_text m of None \<Rightarrow> [] | Some t \<Rightarrow> t)) = Some r"
    and "cards r = None"
    and "product_cards r = Some (c1 # cs)"
  shows "ChatHandler_call c self ai upd client (Some u)
           = middleware (ChatHandler_deliver self upd client m
               (card_from_json c1 0 (int (length (c1 # cs)) - 1))
               (u\<lparr>state := (state u)
                  \<lparr>cards_json := Some (c1 # cs), cards_current_page := 0,
                   cards_total_length := int (length (c1 # cs))\<rparr>\<rparr>))"
  using assms
  by (simp add: ChatHandler_call_def ChatHandler_body_def Let_def
        BaseCallback_validate_user_def interpret_product_cards)

lemma process_update_Chat:
  "process_update c u (Chat self ai upd client)
     = (case fst (ChatHandler_call c self ai upd client (Some u)) of
          None \<Rightarrow> u | Some v \<Rightarrow> u\<lparr>state := state v\<rparr>)"
  by (simp add: process_update_def)

lemma deliver_trace:
  "chat_id m = Some chat \<Longrightarrow> chat \<noteq> 0 \<Longrightarrow> upd_message upd = Some m
   \<Longrightarrow> \<not> sublist ''https://ya.ru'' text0
   \<Longrightarrow> use_pagination (state u) \<Longrightarrow> cards_json (state u) \<noteq> None
   \<Longrightarrow> cards_total_length (state u) > 1
   \<Longrightarrow> snd (middleware (ChatHandler_deliver self upd client m text0 u))
       = snd (BaseResponse_remove_callback_buttons client u chat)
         @ [send_message chat (format_message_for_max text0)
              (Some (self_markup_with_pagination self))]"
  by (simp add: ChatHandler_deliver_def mw Let_def BaseResponse_send_message_def
        update_chat_id_def send_call_def split: prod.splits)

text \<open>
  C9. A registered user whose top flow is a managed flow and whose \<open>use_pagination\<close>
  is set sends free text, and the AI response has no \<open>cards\<close> and three records
  under \<open>product_cards\<close>. Then the stored state has the three cards,
  \<open>cards_total_length = 3\<close> and \<open>cards_current_page = 0\<close>, and the text rendered
  for the first card contains the header "result 1 of 3". When the update has a chat id
  and the rendered text does not hold the placeholder link, the last call on the client
  sends a text containing that header, with the pagination keyboard.
\<close>

theorem ChatHandler_starts_pagination:
  "upd_message upd = Some m \<and> flow_stack (state u) \<noteq> []
     \<and> last (flow_stack (state u)) \<in> managed_flows c \<and> use_pagination (state u)
     \<and> ai (ChatHandler_payload u (case msg_text m of None \<Rightarrow> [] | Some t \<Rightarrow> t)) = Some r
     \<and> cards r = None \<and> product_cards r = Some [c1, c2, c3]
   \<longrightarrow> cards_json (state (process_update c u (Chat self ai upd client))) = Some [c1, c2, c3]
       \<and> cards_total_length (state (process_update c u (Chat self ai upd client))) = 3
       \<and> cards_current_page (state (process_update c u (Chat self ai upd client))) = 0
       \<and> sublist (lit_result @ '' 1 '' @ lit_of @ '' 3'') (card_from_json c1 0 (3 - 1))
       \<and> (chat_id m = Some chat \<and> chat \<noteq> 0
            \<and> \<not> sublist ''https://ya.ru'' (card_from_json c1 0 (3 - 1))
          \<longrightarrow> (\<exists>tr txt. snd (ChatHandler_call c self ai upd client (Some u))
                  = tr @ [send_message chat txt (Some (self_markup_with_pagination self))]
                \<and> sublist (lit_result @ '' 1 '' @ lit_of @ '' 3'') txt))"
proof (intro impI)
  assume a: "upd_message upd = Some m \<and> flow_stack (state u) \<noteq> []
     \<and> last (flow_stack (state u)) \<in> managed_flows c \<and> use_pagination (state u)
     \<and> ai (ChatHandler_payload u (case msg_text m of None \<Rightarrow> [] | Some t \<Rightarrow> t)) = Some r
     \<and> cards r = None \<and> product_cards r = Some [c1, c2, c3]"
  define u2 where "u2 = u\<lparr>state := (state u)
                  \<lparr>cards_json := Some [c1, c2, c3], cards_current_page := 0,
                   cards_total_length := 3\<rparr>\<rparr>"
  from a have call: "ChatHandler_call c self ai upd client (Some u)
      = middleware (ChatHandler_deliver self upd client m (card_from_json c1 0 2) u2)"
    using Chat_product_cards [of upd m u c ai r c1 "[c2, c3]" self client]
    by (simp add: u2_def)
  obtain u' where u': "fst (middleware (ChatHandler_deliver self upd client m (card_from_json c1 0 2) u2)) = Some u'"
    and keep: "cards_json (state u') = cards_json (state u2)"
      "cards_current_page (state u') = cards_current_page (state u2)"
      "cards_total_length (state u') = cards_total_length (state u2)"
    using deliver_user [of self upd client m "card_from_json c1 0 2" u2] by blast
  have st: "state (process_update c u (Chat self ai upd client)) = state u'"
    by (simp add: process_update_Chat call u')
  have s1: "cards_json (state (process_update c u (Chat self ai upd client))) = Some [c1, c2, c3]"
    and s2: "cards_total_length (state (process_update c u (Chat self ai upd client))) = 3"
    and s3: "cards_current_page (state (process_update c u (Chat self ai upd client))) = 0"
    by (simp_all add: st keep u2_def)
  have h: "sublist (lit_result @ '' 1 '' @ lit_of @ '' 3'') (card_from_json c1 0 (3 - 1))"
    using header_in_card [of c1] by (simp add: header_1_of_3_def)
  have sent: "chat_id m = Some chat \<and> chat \<noteq> 0
            \<and> \<not> sublist ''https://ya.ru'' (card_from_json c1 0 (3 - 1))
          \<longrightarrow> (\<exists>tr txt. snd (ChatHandler_call c self ai upd client (Some u))
                  = tr @ [send_message chat txt (Some (self_markup_with_pagination self))]
                \<and> sublist (lit_result @ '' 1 '' @ lit_of @ '' 3'') txt)"
  proof
    assume b: "chat_id m = Some chat \<and> chat \<noteq> 0
            \<and> \<not> sublist ''https://ya.ru'' (card_from_json c1 0 (3 - 1))"
    with a have "snd (ChatHandler_call c self ai upd client (Some u))
        = snd (BaseResponse_remove_callback_buttons client u2 chat)
          @ [send_message chat (format_message_for_max (card_from_json c1 0 2))
               (Some (self_markup_with_pagination self))]"
      unfolding call
      by (intro deliver_trace) (simp_all add: u2_def)
    moreover have "sublist (lit_result @ '' 1 '' @ lit_of @ '' 3'')
        (format_message_for_max (card_from_json c1 0 2))"
      using header_in_formatted_card [of c1] by (simp add: header_1_of_3_def)
    ultimately show "\<exists>tr txt. snd (ChatHandler_call c self ai upd client (Some u))
                  = tr @ [send_message chat txt (Some (self_markup_with_pagination self))]
                \<and> sublist (lit_result @ '' 1 '' @ lit_of @ '' 3'') txt"
      by blast
  qed
  from s1 s2 s3 h sent
  show "cards_json (state (process_update c u (Chat self ai upd client))) = Some [c1, c2, c3]
       \<and> cards_total_length (state (process_update c u (Chat self ai upd client))) = 3
       \<and> cards_current_page (state (process_update c u (Chat self ai upd client))) = 0
       \<and> sublist (lit_result @ '' 1 '' @ lit_of @ '' 3'') (card_from_json c1 0 (3 - 1))
       \<and> (chat_id m = Some chat \<and> chat \<noteq> 0
            \<and> \<not> sublist ''https://ya.ru'' (card_from_json c1 0 (3 - 1))
          \<longrightarrow> (\<exists>tr txt. snd (ChatHandler_call c self ai upd client (Some u))
                  = tr @ [send_message chat txt (Some (self_markup_with_pagination self))]
                \<and> sublist (lit_result @ '' 1 '' @ lit_of @ '' 3'') txt))"
    by blast
qed

lemma ya_not_in_first_card:
  "\<not> sublist ''https://ya.ru'' (card_from_json [(''name'', ''Laptop A'')] 0 2)"
  by (simp add: card_from_json_def card_header_def card_field_def str_int_1 str_int_3
        lit_page_def lit_result_def lit_of_def nl_def sublist_code)

theorem ChatHandler_starts_pagination_witness:
  "cards_json (state (process_update example_common search_user
       (Chat chat_handler three_cards_ai (text_update ''laptop'') ok_client))) = Some three_cards
   \<and> cards_total_length (state (process_update example_common search_user
       (Chat chat_handler three_cards_ai (text_update ''laptop'') ok_client))) = 3
   \<and> cards_current_page (state (process_update example_common search_user
       (Chat chat_handler three_cards_ai (text_update ''laptop'') ok_client))) = 0
   \<and> (\<exists>tr txt. snd (ChatHandler_call example_common chat_handler three_cards_ai
                       (text_update ''laptop'') ok_client (Some search_user))
          = tr @ [send_message 7 txt (Some (self_markup_with_pagination chat_handler))]
        \<and> sublist (lit_result @ '' 1 '' @ lit_of @ '' 3'') txt)"
  using ChatHandler_starts_pagination [of "text_update ''laptop''"
      "\<lparr>msg_text = Some ''laptop'', chat_id = Some 7, message_id = ''m1''\<rparr>"
      search_user example_common three_cards_ai
      "\<lparr>answer = Absent, cards = None, product_cards = Some three_cards\<rparr>"
      "[(''name'', ''Laptop A'')]" "[(''name'', ''Laptop B'')]" "[(''title'', ''Laptop C'')]"
      chat_handler ok_client 7]
    ya_not_in_first_card
  by (simp add: text_update_def search_user_def example_common_def three_cards_ai_def
        three_cards_def default_state_def)

section \<open>Pagination: properties\<close>

lemma interpret_cardsD:
  "ChatHandler_interpret c r u = (x, u2) \<Longrightarrow> cards_ok (state u) \<Longrightarrow> cards_ok (state u2)"
  by (auto simp: ChatHandler_interpret_def Let_def cards_ok_def
      split: option.splits list.splits sum.splits if_splits answer_value.splits)

lemma deliver_cardsD:
  "fst (middleware (ChatHandler_deliver self upd client m text0 u)) = Some u'
     \<Longrightarrow> cards_ok (state u) \<Longrightarrow> cards_ok (state u')"
  using deliver_userD [of self upd client m text0 u u'] by (simp add: cards_ok_def)

lemma cards_ok_nav:
  "cards_ok (s\<lparr>use_pagination := a\<rparr>) = cards_ok s"
  "cards_ok (s\<lparr>search_type := b\<rparr>) = cards_ok s"
  "cards_ok (s\<lparr>flow_stack := fs\<rparr>) = cards_ok s"
  by (simp_all add: cards_ok_def)

lemma cards_ok_none:
  "cards_json s = None \<Longrightarrow> cards_ok s"
  by (simp add: cards_ok_def)

lemma Chat_cards:
  "fst (ChatHandler_call c self ai upd client (Some u)) = Some u'
     \<Longrightarrow> cards_ok (state u) \<Longrightarrow> cards_ok (state u')"
  by (auto simp: ChatHandler_call_def ChatHandler_body_def mw Let_def cards_ok_nav
      dest: interpret_cardsD deliver_cardsD
      split: option.splits sum.splits prod.splits if_splits)

lemma Start_cards:
  "fst (StartCommand_call self upd client (Some u)) = Some u' \<Longrightarrow> cards_ok (state u')"
  by (auto simp: StartCommand_call_def StartCommand_body_def mw Let_def cards_ok_none
      split: prod.splits)

lemma Reset_cards:
  "fst (ResetCommand_call self upd client (Some u)) = Some u' \<Longrightarrow> cards_ok (state u')"
  by (auto simp: ResetCommand_call_def ResetCommand_body_def mw Let_def cards_ok_none
      split: prod.splits)

lemma ExtendedStatic_cards:
  "fst (ExtendedStaticHandler_call c self upd client (Some u)) = Some u'
     \<Longrightarrow> cards_ok (state u) \<Longrightarrow> cards_ok (state u')"
  by (auto simp: ExtendedStaticHandler_call_def ExtendedStaticHandler_body_def mw Let_def
        cards_ok_nav
      split: option.splits sum.splits prod.splits if_splits)

lemma Managed_cards:
  "fst (ManagedHandler_call c self upd client (Some u)) = Some u'
     \<Longrightarrow> cards_ok (state u) \<Longrightarrow> cards_ok (state u')"
  by (auto simp: ManagedHandler_call_def ManagedHandler_body_def mw Let_def cards_ok_nav
      split: option.splits sum.splits prod.splits if_splits)

lemma Exit_cards:
  "fst (ExitCallback_call c self upd client (Some u)) = Some u'
     \<Longrightarrow> cards_ok (state u) \<Longrightarrow> cards_ok (state u')"
proof (cases "upd_callback_query upd")
  case None
  assume "fst (ExitCallback_call c self upd client (Some u)) = Some u'"
    and "cards_ok (state u)"
  with None show ?thesis
    by (simp add: ExitCallback_call_def ExitCallback_body_def mw)
next
  case (Some cq)
  assume "fst (ExitCallback_call c self upd client (Some u)) = Some u'"
    and "cards_ok (state u)"
  with Exit_result [OF Some, of c self client u] show ?thesis
    by (auto simp: cards_ok_none)
qed

lemma page_moves_cards:
  "cards_ok (state u) \<Longrightarrow> cards_ok (state (next_page u))"
  "cards_ok (state u) \<Longrightarrow> cards_ok (state (previous_page u))"
  by (auto simp: cards_ok_def next_page_def previous_page_def)

lemma Pagination_cards:
  "fst (PaginationCallback_call c upd client (Some u)) = Some u'
     \<Longrightarrow> cards_ok (state u) \<Longrightarrow> cards_ok (state u')"
  by (auto simp: PaginationCallback_call_def PaginationCallback_body_def mw Let_def
        render_keeps_user page_moves_cards
      split: option.splits sum.splits prod.splits if_splits list.splits)

lemma handle_cards:
  "fst (handle c op (Some u)) = Some u' \<Longrightarrow> cards_ok (state u) \<Longrightarrow> cards_ok (state u')"
proof (cases op)
  case (Static h upd client)
  assume "fst (handle c op (Some u)) = Some u'" and "cards_ok (state u)"
  with Static show ?thesis using Static_stack by fastforce
next
  case (Hide upd client)
  assume "fst (handle c op (Some u)) = Some u'" and "cards_ok (state u)"
  with Hide show ?thesis using Hide_stack by fastforce
qed (auto dest: Start_cards Reset_cards ExtendedStatic_cards Managed_cards Chat_cards
       Exit_cards Pagination_cards)

lemma process_update_cards:
  "cards_ok (state u) \<Longrightarrow> cards_ok (state (process_update c u op))"
  by (auto simp: process_update_def dest: handle_cards split: option.splits)

lemma process_updates_cards:
  "cards_ok (state u) \<Longrightarrow> cards_ok (state (process_updates c u ops))"
  unfolding process_updates_def
  by (induction ops arbitrary: u) (auto simp: process_update_cards)

lemma reachable_page_in_range:
  "truthy (cards_json (state (process_updates c (u\<lparr>state := default_state\<rparr>) ops)))
   \<Longrightarrow> 0 \<le> cards_current_page (state (process_updates c (u\<lparr>state := default_state\<rparr>) ops))
     \<and> cards_current_page (state (process_updates c (u\<lparr>state := default_state\<rparr>) ops))
         < cards_total_length (state (process_updates c (u\<lparr>state := default_state\<rparr>) ops))"
  using process_updates_cards [of "u\<lparr>state := default_state\<rparr>" c ops]
  by (simp add: cards_ok_def default_state_def)

lemma search_session_state:
  "state (process_updates example_common ((example_user [])\<lparr>state := default_state\<rparr>) search_session)
     = default_state
        \<lparr>use_pagination := True, flow_stack := [''main'', ''Catalog'', ''Search''],
         search_type := ''products'', callback_message_id := Some ''m2'',
         cards_json := Some three_cards,
         cards_current_page := 0, cards_total_length := 3\<rparr>"
  by (simp add: search_session_def process_updates_def process_update_def
        ExtendedStaticHandler_call_def ExtendedStaticHandler_body_def
        ManagedHandler_call_def ManagedHandler_body_def
        ChatHandler_call_def ChatHandler_body_def ChatHandler_deliver_def
        ChatHandler_interpret_def ChatHandler_payload_def
        BaseHandler_validate_user_def BaseCallback_validate_user_def validate_flow_def
        button_names_def errors_get_def mw Let_def
        BaseResponse_send_message_def BaseResponse_remove_callback_buttons_def
        update_chat_id_def send_call_def EMPTY_STR_def
        example_defs catalog_handler_def chat_handler_def three_cards_ai_def three_cards_def
        ya_not_in_first_card)

text \<open>
  C6. With cards present, the pagination callback returns the user moved by
  \<open>next_page\<close> on \<open>next_callback\<close> and by \<open>previous_page\<close> on
  \<open>previous_callback\<close>. \<open>next_page\<close> at the last page and \<open>previous_page\<close> at
  page 0 change nothing; on a page within \<open>0 \<le> page < total\<close> they are
  \<open>min (page + 1) (total - 1)\<close> and \<open>max (page - 1) 0\<close>, and the page stays in
  that range. Every state reached from the default state that has cards has its page
  in that range.
\<close>

theorem PaginationCallback_clamps:
  "(upd_callback_query upd = Some cq \<and> truthy (cards_json (state u))
    \<longrightarrow> (cq_data cq = Some ''next_callback''
           \<longrightarrow> fst (PaginationCallback_call c upd client (Some u)) = Some (next_page u))
        \<and> (cq_data cq = Some ''previous_callback''
           \<longrightarrow> fst (PaginationCallback_call c upd client (Some u)) = Some (previous_page u))
        \<and> (cards_current_page (state u) = cards_total_length (state u) - 1 \<longrightarrow> next_page u = u)
        \<and> (cards_current_page (state u) = 0 \<longrightarrow> previous_page u = u)
        \<and> (0 \<le> cards_current_page (state u)
             \<and> cards_current_page (state u) < cards_total_length (state u)
           \<longrightarrow> cards_current_page (state (next_page u))
                 = min (cards_current_page (state u) + 1) (cards_total_length (state u) - 1)
               \<and> cards_current_page (state (previous_page u))
                 = max (cards_current_page (state u) - 1) 0
               \<and> 0 \<le> cards_current_page (state (next_page u))
               \<and> cards_current_page (state (next_page u)) < cards_total_length (state (next_page u))
               \<and> 0 \<le> cards_current_page (state (previous_page u))
               \<and> cards_current_page (state (previous_page u))
                   < cards_total_length (state (previous_page u))))
   \<and> (truthy (cards_json (state (process_updates c (v\<lparr>state := default_state\<rparr>) ops)))
      \<longrightarrow> 0 \<le> cards_current_page (state (process_updates c (v\<lparr>state := default_state\<rparr>) ops))
        \<and> cards_current_page (state (process_updates c (v\<lparr>state := default_state\<rparr>) ops))
            < cards_total_length (state (process_updates c (v\<lparr>state := default_state\<rparr>) ops)))"
proof (intro impI conjI)
  assume a: "upd_callback_query upd = Some cq \<and> truthy (cards_json (state u))"
  {
    assume "cq_data cq = Some ''next_callback''"
    with a show "fst (PaginationCallback_call c upd client (Some u)) = Some (next_page u)"
      by (simp add: PaginationCallback_call_def PaginationCallback_body_def
            BaseCallback_validate_user_def render_keeps_user)
  }
  {
    assume "cq_data cq = Some ''previous_callback''"
    with a show "fst (PaginationCallback_call c upd client (Some u)) = Some (previous_page u)"
      by (simp add: PaginationCallback_call_def PaginationCallback_body_def
            BaseCallback_validate_user_def render_keeps_user)
  }
next
  assume "truthy (cards_json (state (process_updates c (v\<lparr>state := default_state\<rparr>) ops)))"
  then show "0 \<le> cards_current_page (state (process_updates c (v\<lparr>state := default_state\<rparr>) ops))"
    and "cards_current_page (state (process_updates c (v\<lparr>state := default_state\<rparr>) ops))
            < cards_total_length (state (process_updates c (v\<lparr>state := default_state\<rparr>) ops))"
    using reachable_page_in_range [of c v ops] by simp_all
qed (auto simp: next_page_def previous_page_def)

theorem PaginationCallback_clamps_witness:
  "fst (PaginationCallback_call example_common (callback_update ''next_callback'') ok_client
          (Some (cards_user 2))) = Some (cards_user 2)
   \<and> fst (PaginationCallback_call example_common (callback_update ''previous_callback'') ok_client
          (Some (cards_user 0))) = Some (cards_user 0)
   \<and> fst (PaginationCallback_call example_common (callback_update ''next_callback'') ok_client
          (Some (cards_user 1))) = Some (cards_user 2)
   \<and> fst (PaginationCallback_call example_common (callback_update ''previous_callback'') ok_client
          (Some (cards_user 1))) = Some (cards_user 0)
   \<and> truthy (cards_json (state (process_updates example_common
          ((example_user [])\<lparr>state := default_state\<rparr>) search_session)))
   \<and> 0 \<le> cards_current_page (state (process_updates example_common
          ((example_user [])\<lparr>state := default_state\<rparr>) search_session))
   \<and> cards_current_page (state (process_updates example_common
          ((example_user [])\<lparr>state := default_state\<rparr>) search_session))
       < cards_total_length (state (process_updates example_common
          ((example_user [])\<lparr>state := default_state\<rparr>) search_session))"
  using PaginationCallback_clamps [of "callback_update ''next_callback''"
      "\<lparr>cq_data = Some ''next_callback'',
        cq_message = Some \<lparr>msg_text = None, chat_id = Some 7, message_id = ''m1''\<rparr>,
        cq_id = None\<rparr>" "cards_user 2" example_common ok_client "example_user []" search_session]
    PaginationCallback_clamps [of "callback_update ''previous_callback''"
      "\<lparr>cq_data = Some ''previous_callback'',
        cq_message = Some \<lparr>msg_text = None, chat_id = Some 7, message_id = ''m1''\<rparr>,
        cq_id = None\<rparr>" "cards_user 0" example_common ok_client "example_user []" search_session]
    PaginationCallback_clamps [of "callback_update ''next_callback''"
      "\<lparr>cq_data = Some ''next_callback'',
        cq_message = Some \<lparr>msg_text = None, chat_id = Some 7, message_id = ''m1''\<rparr>,
        cq_id = None\<rparr>" "cards_user 1" example_common ok_client "example_user []" search_session]
    PaginationCallback_clamps [of "callback_update ''previous_callback''"
      "\<lparr>cq_data = Some ''previous_callback'',
        cq_message = Some \<lparr>msg_text = None, chat_id = Some 7, message_id = ''m1''\<rparr>,
        cq_id = None\<rparr>" "cards_user 1" example_common ok_client "example_user []" search_session]
  by (simp add: callback_update_def cards_user_def three_cards_def next_page_def
        previous_page_def search_session_state)

end
